theory Spec2Isabelle
  imports
    Complex_Main
    "HOL-Library.Char_ord"
    "HOL-Library.List_Lexorder"
    "HOL-Library.Product_Lexorder"
begin

section \<open>Strings as the lease monitor uses them\<close>

text \<open>
  The lease monitor (\<^verbatim>\<open>kea_lease_monitor.py\<close>) works on host names, IP addresses and
  MAC addresses as Python strings. They are modelled as \<^typ>\<open>string\<close>; host names are
  ASCII, so \<^verbatim>\<open>str.lower\<close> is the ASCII lower-casing and the regular expression class
  \<^verbatim>\<open>\d\<close> is the ten ASCII digits. Python compares strings code point by code point,
  which is the lexicographic order on \<^typ>\<open>char list\<close>.
\<close>

definition is_digit :: "char \<Rightarrow> bool" where
  "is_digit c = (c \<in> set ''0123456789'')"

definition lower_char :: "char \<Rightarrow> char" where
  "lower_char c =
     (if 65 \<le> (of_char c :: nat) \<and> (of_char c :: nat) \<le> 90
      then char_of ((of_char c :: nat) + 32) else c)"

definition lower :: "string \<Rightarrow> string" where
  "lower s = map lower_char s"

definition upper_char :: "char \<Rightarrow> char" where
  "upper_char c =
     (if 97 \<le> (of_char c :: nat) \<and> (of_char c :: nat) \<le> 122
      then char_of ((of_char c :: nat) - 32) else c)"

definition upper :: "string \<Rightarrow> string" where
  "upper s = map upper_char s"

fun startswith :: "string \<Rightarrow> string \<Rightarrow> bool" where
  "startswith s [] = True"
| "startswith [] (p # ps) = False"
| "startswith (c # cs) (p # ps) = (c = p \<and> startswith cs ps)"

definition endswith :: "string \<Rightarrow> string \<Rightarrow> bool" where
  "endswith s suf = startswith (rev s) (rev suf)"

text \<open>\<^verbatim>\<open>sub in s\<close> on strings.\<close>

fun contains :: "string \<Rightarrow> string \<Rightarrow> bool" where
  "contains [] sub = (sub = [])"
| "contains (c # cs) sub = (startswith (c # cs) sub \<or> contains cs sub)"

text \<open>\<^verbatim>\<open>int(s)\<close> on a non-empty run of digits, as the regular expression groups give it.\<close>

definition digit_val :: "char \<Rightarrow> nat" where
  "digit_val c = (of_char c :: nat) - 48"

definition int_of_digits :: "string \<Rightarrow> nat" where
  "int_of_digits ds = foldl (\<lambda>n c. 10 * n + digit_val c) 0 ds"

text \<open>\<^verbatim>\<open>str(n)\<close> for a non-negative integer, as an f-string formats it.\<close>

definition digit_char :: "nat \<Rightarrow> char" where
  "digit_char d = char_of (48 + d)"

fun str_nat :: "nat \<Rightarrow> string" where
  "str_nat n = (if n < 10 then [digit_char n] else str_nat (n div 10) @ [digit_char (n mod 10)])"

declare str_nat.simps [simp del]

section \<open>Rack units of a host name\<close>

text \<open>
  The three rack-unit functions of \<^verbatim>\<open>LeaseProcessor\<close> all run
  \<^verbatim>\<open>re.search(r'ru(\d+)(?:-(\d+))?', hostname.lower())\<close>. The search takes the leftmost
  position where \<^verbatim>\<open>ru\<close> is followed by a digit; group 1 is the whole run of digits
  (the repetition is greedy and nothing after it can fail), and group 2 is the run of
  digits after a following hyphen, or absent.
\<close>

fun ru_match_at :: "string \<Rightarrow> (string \<times> string option) option" where
  "ru_match_at (c1 # c2 # rest) =
     (if c1 = CHR ''r'' \<and> c2 = CHR ''u'' \<and> takeWhile is_digit rest \<noteq> []
      then Some (takeWhile is_digit rest,
             (case dropWhile is_digit rest of
                [] \<Rightarrow> None
              | d # after \<Rightarrow>
                  if d = CHR ''-'' \<and> takeWhile is_digit after \<noteq> []
                  then Some (takeWhile is_digit after) else None))
      else None)"
| "ru_match_at _ = None"

fun ru_search :: "string \<Rightarrow> (string \<times> string option) option" where
  "ru_search [] = None"
| "ru_search (c # cs) =
     (case ru_match_at (c # cs) of Some g \<Rightarrow> Some g | None \<Rightarrow> ru_search cs)"

text \<open>\<^verbatim>\<open>_extract_rack_unit\<close>: the highest unit, 0 without a match.\<close>

definition extract_rack_unit :: "string \<Rightarrow> nat" where
  "extract_rack_unit hostname =
     (if hostname = [] then 0
      else case ru_search (lower hostname) of
        Some (g1, g2) \<Rightarrow>
          (let ru_start = int_of_digits g1;
               ru_end = (case g2 of Some d \<Rightarrow> int_of_digits d | None \<Rightarrow> ru_start)
           in max ru_start ru_end)
      | None \<Rightarrow> 0)"

text \<open>
  \<^verbatim>\<open>_format_rack_unit\<close>: \<^verbatim>\<open>ru_end\<close> is \<^verbatim>\<open>None\<close> without a second group, and the test
  \<^verbatim>\<open>if ru_end:\<close> also takes the single-unit branch when the second group is the number 0.
\<close>

definition format_rack_unit :: "string \<Rightarrow> string" where
  "format_rack_unit hostname =
     (if hostname = [] then ''''
      else case ru_search (lower hostname) of
        Some (g1, g2) \<Rightarrow>
          (let ru_start = int_of_digits g1;
               ru_end = (case g2 of Some d \<Rightarrow> Some (int_of_digits d) | None \<Rightarrow> None)
           in case ru_end of
                Some e \<Rightarrow>
                  if e \<noteq> 0
                  then ''RU '' @ str_nat (max ru_start e) @ ''-'' @ str_nat (min ru_start e)
                  else ''RU '' @ str_nat ru_start
              | None \<Rightarrow> ''RU '' @ str_nat ru_start)
      | None \<Rightarrow> '''')"

text \<open>\<^verbatim>\<open>_get_rack_unit_range\<close>: the set of the units occupied.\<close>

definition get_rack_unit_range :: "string \<Rightarrow> nat set" where
  "get_rack_unit_range hostname =
     (if hostname = [] then {}
      else case ru_search (lower hostname) of
        Some (g1, g2) \<Rightarrow>
          (let ru_start = int_of_digits g1;
               ru_end = (case g2 of Some d \<Rightarrow> int_of_digits d | None \<Rightarrow> ru_start)
           in set [min ru_start ru_end ..< max ru_start ru_end + 1])
      | None \<Rightarrow> {})"

section \<open>Leases and the site-cabinet naming convention\<close>

text \<open>
  \<^verbatim>\<open>DHCPLease\<close>. The dataclass declares \<^verbatim>\<open>mac_address: str\<close>, but the notification
  source passes \<^verbatim>\<open>None\<close> for it when a payload has no \<^verbatim>\<open>dhcp_identifier\<close>, so the
  field is optional here.
\<close>

record DHCPLease =
  ip_address :: string
  mac_address :: "string option"
  hostname :: "string option"
  subnet_id :: "string option"
  lease_timestamp :: int

text \<open>Python truthiness of an optional string: neither \<^verbatim>\<open>None\<close> nor empty.\<close>

fun truthy :: "string option \<Rightarrow> bool" where
  "truthy None = False"
| "truthy (Some s) = (s \<noteq> [])"

text \<open>\<^verbatim>\<open>x or ''\<close> on an optional string.\<close>

fun or_empty :: "string option \<Rightarrow> string" where
  "or_empty None = []"
| "or_empty (Some s) = s"

text \<open>
  \<^verbatim>\<open>_extract_site_and_cabinet\<close> matches \<^verbatim>\<open>^(us[1-4]|dv)-cab(\d+)-\<close> at the start of the
  lower-cased host name and returns the site and \<^verbatim>\<open>cab\<close> followed by the digits as
  they stand. \<^verbatim>\<open>site_prefix\<close> is the first group with the rest of the string.
\<close>

definition site_prefix :: "string \<Rightarrow> (string \<times> string) option" where
  "site_prefix s =
     (if startswith s ''us'' \<and> length s \<ge> 3 \<and> s ! 2 \<in> set ''1234''
      then Some (take 3 s, drop 3 s)
      else if startswith s ''dv'' then Some (''dv'', drop 2 s)
      else None)"

definition match_site_cabinet :: "string \<Rightarrow> (string \<times> string) option" where
  "match_site_cabinet s =
     (case site_prefix s of
        None \<Rightarrow> None
      | Some (site, rest) \<Rightarrow>
          if startswith rest ''-cab''
             \<and> takeWhile is_digit (drop 4 rest) \<noteq> []
             \<and> startswith (dropWhile is_digit (drop 4 rest)) ''-''
          then Some (site, ''cab'' @ takeWhile is_digit (drop 4 rest))
          else None)"

definition extract_site_and_cabinet :: "DHCPLease \<Rightarrow> (string \<times> string) option" where
  "extract_site_and_cabinet lease =
     (if \<not> truthy (hostname lease) then None
      else match_site_cabinet (lower (or_empty (hostname lease))))"

text \<open>\<^verbatim>\<open>_detect_manufacturer\<close>, with its tests in the order of the source.\<close>

definition detect_manufacturer :: "string \<Rightarrow> string" where
  "detect_manufacturer h =
     (if h = [] then ''Unknown''
      else if endswith (lower h) ''-idrac'' \<or> contains (lower h) ''idrac'' then ''Dell''
      else if endswith (lower h) ''-ilo'' \<or> contains (lower h) ''ilo'' then ''HP''
      else if endswith (lower h) ''-bmc'' \<or> endswith (lower h) ''bmc'' then ''Supermicro''
      else ''Unknown'')"

section \<open>The reservation store and the DNS collaborator\<close>

text \<open>
  The fields of \<^verbatim>\<open>LeaseProcessor\<close> that its methods read after construction.
\<close>

record LeaseProcessor =
  db_enabled :: bool
  proc_subnet_id :: int
  enable_dns :: bool
  dns_zone :: "string option"

text \<open>
  A row of the \<^verbatim>\<open>hosts\<close> table is keyed by \<^verbatim>\<open>(dhcp_identifier, dhcp_identifier_type,
  dhcp4_subnet_id)\<close>; the identifier type is the constant 0 of the upsert and the
  identifier is held as the upper-case hexadecimal text the upsert decodes. The row binds
  an address and a host name. The generated \<^verbatim>\<open>host_id\<close> is only logged and is left out.
\<close>

type_synonym host_key = "string \<times> int"
type_synonym host_row = "string \<times> string"
type_synonym hosts_table = "host_key \<rightharpoonup> host_row"

text \<open>
  What the collaborators answer; the lease monitor has no control over it.
  \<^item> \<open>db_reachable\<close>: \<^verbatim>\<open>psycopg2.connect\<close> returns a connection;
  \<^item> \<open>db_execute_ok\<close>: the store executes the upsert on the table without raising
    (the hexadecimal text decodes, the address casts, no constraint is violated);
  \<^item> \<open>dns_modules\<close>: the SOLIDserver and Vault modules were imported;
  \<^item> \<open>sds_create_ok\<close>: the directory creates the A record without raising;
  \<^item> \<open>lease4_query\<close>: the answer of the \<^verbatim>\<open>lease4\<close> table for an address;
  \<^item> \<open>write_ok\<close>: the inventory file of that name can be opened and written;
  \<^item> \<open>now\<close>: the clock, as an ISO timestamp.
\<close>

datatype lease4_result = QueryError | NoRow | Row "string option" "string option"

record environment =
  db_reachable :: bool
  db_execute_ok :: "hosts_table \<Rightarrow> host_key \<Rightarrow> host_row \<Rightarrow> bool"
  dns_modules :: bool
  sds_create_ok :: "string \<Rightarrow> string \<Rightarrow> bool"
  lease4_query :: "string \<Rightarrow> lease4_result"
  write_ok :: "string \<Rightarrow> bool"
  now :: string

text \<open>A psycopg2 connection: the rows committed and the rows the open transaction sees.\<close>

record connection =
  committed :: hosts_table
  working :: hosts_table

definition connect :: "hosts_table \<Rightarrow> connection" where
  "connect t = \<lparr>committed = t, working = t\<rparr>"

text \<open>
  \<^verbatim>\<open>INSERT ... ON CONFLICT (key) DO UPDATE ... RETURNING host_id, (xmax = 0)\<close>: the
  row is inserted or its address and host name are overwritten; the flag tells which.
\<close>

definition execute_upsert :: "connection \<Rightarrow> host_key \<Rightarrow> host_row \<Rightarrow> connection \<times> bool" where
  "execute_upsert c k r = (c\<lparr>working := (working c)(k \<mapsto> r)\<rparr>, working c k = None)"

definition rollback :: "connection \<Rightarrow> connection" where
  "rollback c = c\<lparr>working := committed c\<rparr>"

definition commit :: "connection \<Rightarrow> connection" where
  "commit c = c\<lparr>committed := working c\<rparr>"

text \<open>Closing a connection discards what was not committed.\<close>

definition close :: "connection \<Rightarrow> hosts_table" where
  "close c = committed c"

section \<open>Inventory files, the log and the state the processor acts on\<close>

text \<open>
  One entry of \<^verbatim>\<open>bmc_targets\<close> in a cabinet inventory file: a dictionary with the key
  \<^verbatim>\<open>ip\<close> and the optional keys \<^verbatim>\<open>mac\<close>, \<^verbatim>\<open>hostname\<close>, \<^verbatim>\<open>rack_unit\<close> and
  \<^verbatim>\<open>manufacturer\<close> (\<open>None\<close> is an absent key).
\<close>

record bmc_target =
  ip :: string
  mac :: "string option"
  target_hostname :: "string option"
  rack_unit :: "string option"
  manufacturer :: "string option"

record inventory_metadata =
  updated_at :: string
  source :: string
  site :: string
  cabinet :: string
  total_count :: nat

record inventory =
  bmc_targets :: "bmc_target list"
  metadata :: inventory_metadata

text \<open>
  An inventory file on disk either loads into the shape above, or it does not
  (\<^verbatim>\<open>yaml.safe_load\<close> raises, or the document is empty or has no \<^verbatim>\<open>bmc_targets\<close>); in
  the second case nothing is taken from it. The \<^verbatim>\<open>metadata['leases']\<close> of the older shape
  is read into a cache that \<^verbatim>\<open>_query_lease_details\<close> never consults, so it is left out.
\<close>

datatype inventory_file = Unloadable | Inventory inventory

text \<open>
  The log keeps the conflict report and the per-cabinet summary; the tag is
  \<^verbatim>\<open>SITE-CABINET\<close> in upper case. Debug messages and the other notes are not modelled.
\<close>

datatype log_entry =
    Mac_conflict string string "string list"
  | Hostname_conflict string string "string list"
  | Rack_unit_conflict string nat "(string \<times> string) list"
  | Conflicts_found string
  | Discovered string "string list" string

text \<open>
  What the processor changes: the files of the output directory by name, the committed
  rows of the reservation store, the A records created on the directory, and the log.
\<close>

record state =
  files :: "string \<rightharpoonup> inventory_file"
  hosts :: hosts_table
  dns_records :: "(string \<times> string) list"
  log :: "log_entry list"

section \<open>Reservation and DNS as one transaction\<close>

text \<open>
  \<^verbatim>\<open>create_dns_record\<close>: three early returns report success without creating anything;
  otherwise the record is created on the directory, and any exception gives \<^verbatim>\<open>False\<close>.
\<close>

definition create_dns_record ::
  "LeaseProcessor \<Rightarrow> environment \<Rightarrow> string \<Rightarrow> string \<Rightarrow> state \<Rightarrow> bool \<times> state" where
  "create_dns_record p e h addr s =
     (if \<not> enable_dns p then (True, s)
      else if \<not> truthy (dns_zone p) then (True, s)
      else if \<not> dns_modules e then (True, s)
      else if sds_create_ok e (h @ ''.'' @ or_empty (dns_zone p)) addr
      then (True, s\<lparr>dns_records := dns_records s @ [(h @ ''.'' @ or_empty (dns_zone p), addr)]\<rparr>)
      else (False, s))"

datatype py_error = AttributeError | OperationalError | DatabaseError | OSError

text \<open>
  The body of the \<^verbatim>\<open>try\<close> in \<^verbatim>\<open>create_static_reservation\<close>, with every exception as a
  value: \<^verbatim>\<open>lease.mac_address.replace\<close> on \<^verbatim>\<open>None\<close>, a failed connect, a failed upsert
  (the \<^verbatim>\<open>finally\<close> closes the connection). The upsert always returns its row, so the
  test \<^verbatim>\<open>if result:\<close> holds.
\<close>

definition reservation_transaction ::
  "LeaseProcessor \<Rightarrow> environment \<Rightarrow> DHCPLease \<Rightarrow> state \<Rightarrow> py_error + (bool \<times> state)" where
  "reservation_transaction p e lease s =
     (case mac_address lease of
        None \<Rightarrow> Inl AttributeError
      | Some m \<Rightarrow>
          (let mac_hex = upper (filter (\<lambda>c. c \<noteq> CHR '':'') m);
               key = (mac_hex, proc_subnet_id p);
               row = (ip_address lease, or_empty (hostname lease))
           in if \<not> db_reachable e then Inl OperationalError
              else let conn = connect (hosts s)
                in if \<not> db_execute_ok e (working conn) key row then Inl DatabaseError
                   else let (conn1, inserted) = execute_upsert conn key row
                     in if enable_dns p
                        then let (dns_success, s1) =
                                   create_dns_record p e (or_empty (hostname lease)) (ip_address lease) s
                          in if \<not> dns_success
                             then Inr (False, s1\<lparr>hosts := close (rollback conn1)\<rparr>)
                             else Inr (True, s1\<lparr>hosts := close (commit conn1)\<rparr>)
                        else Inr (True, s\<lparr>hosts := close (commit conn1)\<rparr>)))"

text \<open>
  \<^verbatim>\<open>create_static_reservation\<close>: the handler \<^verbatim>\<open>except Exception\<close> turns every exception
  of the body into \<^verbatim>\<open>False\<close>; nothing was committed then.
\<close>

definition create_static_reservation ::
  "LeaseProcessor \<Rightarrow> environment \<Rightarrow> DHCPLease \<Rightarrow> state \<Rightarrow> bool \<times> state" where
  "create_static_reservation p e lease s =
     (if \<not> db_enabled p then (False, s)
      else if \<not> truthy (hostname lease) then (False, s)
      else case reservation_transaction p e lease s of
             Inl err \<Rightarrow> (False, s)
           | Inr r \<Rightarrow> r)"

section \<open>Reconciling leases into a cabinet inventory\<close>

text \<open>
  Python dictionaries keep insertion order: an association list in which assigning to a
  present key keeps its place and a new key goes to the end. Looking a key up is
  \<^const>\<open>map_of\<close>.
\<close>

fun dict_set :: "('k \<times> 'v) list \<Rightarrow> 'k \<Rightarrow> 'v \<Rightarrow> ('k \<times> 'v) list" where
  "dict_set [] k v = [(k, v)]"
| "dict_set ((k', v') # kvs) k v =
     (if k' = k then (k', v) # kvs else (k', v') # dict_set kvs k v)"

text \<open>\<^verbatim>\<open>d.setdefault(k, []).append(v)\<close>, as the grouping loops spell it out.\<close>

fun dict_append :: "('k \<times> 'v list) list \<Rightarrow> 'k \<Rightarrow> 'v \<Rightarrow> ('k \<times> 'v list) list" where
  "dict_append [] k v = [(k, [v])]"
| "dict_append ((k', vs) # kvs) k v =
     (if k' = k then (k', vs @ [v]) # kvs else (k', vs) # dict_append kvs k v)"

text \<open>The value kept for an address in \<^verbatim>\<open>existing_bmc_map\<close>.\<close>

record lease_details =
  d_mac :: "string option"
  d_hostname :: string
  d_manufacturer :: string

definition no_details :: lease_details where
  "no_details = \<lparr>d_mac = Some [], d_hostname = [], d_manufacturer = []\<rparr>"

text \<open>\<^verbatim>\<open>':'.join(s[i:i+2] for i in range(0, len(s), 2))\<close>.\<close>

fun pairs_of :: "string \<Rightarrow> string list" where
  "pairs_of (a # b # rest) = [a, b] # pairs_of rest"
| "pairs_of s = (if s = [] then [] else [s])"

fun join :: "string \<Rightarrow> string list \<Rightarrow> string" where
  "join sep [] = []"
| "join sep [x] = x"
| "join sep (x # y # ys) = x @ sep @ join sep (y # ys)"

text \<open>
  \<^verbatim>\<open>_query_lease_details\<close>: without the database every field is empty; so it is when the
  query raises (the handler logs and falls through) or finds no row. A row with a null
  hardware address raises inside the \<^verbatim>\<open>try\<close> as well.
\<close>

definition query_lease_details :: "LeaseProcessor \<Rightarrow> environment \<Rightarrow> string \<Rightarrow> lease_details" where
  "query_lease_details p e addr =
     (if \<not> db_enabled p then no_details
      else case lease4_query e addr of
             QueryError \<Rightarrow> no_details
           | NoRow \<Rightarrow> no_details
           | Row None h \<Rightarrow> no_details
           | Row (Some mac_hex) h \<Rightarrow>
               \<lparr>d_mac = Some (lower (join '':'' (pairs_of mac_hex))),
                d_hostname = or_empty h,
                d_manufacturer = (if or_empty h \<noteq> [] then detect_manufacturer (or_empty h) else [])\<rparr>)"

text \<open>
  Loading the existing file. The shape is chosen by looking at the first target only:
  with a \<^verbatim>\<open>mac\<close> key it is the new shape and every target is read as it stands; without
  one (or with an empty list) the file counts as the older shape, of which only the
  addresses are used, the details being asked from the database.
\<close>

definition details_of_target :: "bmc_target \<Rightarrow> lease_details" where
  "details_of_target t =
     \<lparr>d_mac = Some (or_empty (mac t)),
      d_hostname = or_empty (target_hostname t),
      d_manufacturer = or_empty (manufacturer t)\<rparr>"

definition load_existing ::
  "LeaseProcessor \<Rightarrow> environment \<Rightarrow> inventory_file option \<Rightarrow> (string \<times> lease_details) list" where
  "load_existing p e f =
     (case f of
        None \<Rightarrow> []
      | Some Unloadable \<Rightarrow> []
      | Some (Inventory doc) \<Rightarrow>
          (case bmc_targets doc of
             [] \<Rightarrow> []
           | t0 # ts \<Rightarrow>
               if mac t0 \<noteq> None
               then foldl (\<lambda>m t. dict_set m (ip t) (details_of_target t)) [] (t0 # ts)
               else foldl (\<lambda>m a. dict_set m a (query_lease_details p e a)) [] (map ip (t0 # ts))))"

text \<open>
  The merge loop: a lease whose address is not yet a key becomes a new entry, and with a
  host name it is promoted to a reservation; a lease whose address is a key is passed over.
  The accumulator is \<^verbatim>\<open>existing_bmc_map\<close>, \<^verbatim>\<open>new_lease_count\<close>, \<^verbatim>\<open>new_hostnames\<close> and
  the state.
\<close>

definition details_of_lease :: "DHCPLease \<Rightarrow> lease_details" where
  "details_of_lease lease =
     \<lparr>d_mac = mac_address lease,
      d_hostname = or_empty (hostname lease),
      d_manufacturer =
        (if truthy (hostname lease) then detect_manufacturer (or_empty (hostname lease)) else [])\<rparr>"

fun merge_leases ::
  "LeaseProcessor \<Rightarrow> environment \<Rightarrow> DHCPLease list \<Rightarrow>
   (string \<times> lease_details) list \<times> nat \<times> string list \<times> state \<Rightarrow>
   (string \<times> lease_details) list \<times> nat \<times> string list \<times> state" where
  "merge_leases p e [] acc = acc"
| "merge_leases p e (lease # rest) (m, n, hs, s) =
     (if map_of m (ip_address lease) = None
      then if truthy (hostname lease)
           then merge_leases p e rest
                  (dict_set m (ip_address lease) (details_of_lease lease), n + 1,
                   hs @ [or_empty (hostname lease)],
                   snd (create_static_reservation p e lease s))
           else merge_leases p e rest
                  (dict_set m (ip_address lease) (details_of_lease lease), n + 1, hs, s)
      else merge_leases p e rest (m, n, hs, s))"

text \<open>
  Building a target: optional keys are written only for non-empty values, and the
  rack-unit display is computed from the host name.
\<close>

definition build_target :: "string \<times> lease_details \<Rightarrow> bmc_target" where
  "build_target kv =
     \<lparr>ip = fst kv,
      mac = (if truthy (d_mac (snd kv)) then d_mac (snd kv) else None),
      target_hostname = (if d_hostname (snd kv) \<noteq> [] then Some (d_hostname (snd kv)) else None),
      rack_unit =
        (if d_hostname (snd kv) \<noteq> [] \<and> format_rack_unit (d_hostname (snd kv)) \<noteq> []
         then Some (format_rack_unit (d_hostname (snd kv))) else None),
      manufacturer =
        (if d_manufacturer (snd kv) \<noteq> [] then Some (d_manufacturer (snd kv)) else None)\<rparr>"

text \<open>
  \<^verbatim>\<open>_validate_bmc_conflicts\<close>. Its one loop fills three dictionaries that do not read each
  other; they are three folds here. A set of rack units is walked in ascending order
  (Python leaves the order of a set open; it only decides the order of the rack-unit
  warnings among themselves).
\<close>

definition mac_to_ips :: "bmc_target list \<Rightarrow> (string \<times> string list) list" where
  "mac_to_ips ts =
     foldl (\<lambda>d t. if truthy (mac t) then dict_append d (or_empty (mac t)) (ip t) else d) [] ts"

definition hostname_to_ips :: "bmc_target list \<Rightarrow> (string \<times> string list) list" where
  "hostname_to_ips ts =
     foldl (\<lambda>d t. if truthy (target_hostname t)
                   then dict_append d (or_empty (target_hostname t)) (ip t) else d) [] ts"

definition ru_usage :: "bmc_target list \<Rightarrow> (nat \<times> (string \<times> string) list) list" where
  "ru_usage ts =
     foldl (\<lambda>d t. if truthy (target_hostname t)
                   then foldl (\<lambda>d' ru. dict_append d' ru (ip t, or_empty (target_hostname t))) d
                          (sorted_list_of_set (get_rack_unit_range (or_empty (target_hostname t))))
                   else d) [] ts"

definition conflict_tag :: "string \<Rightarrow> string \<Rightarrow> string" where
  "conflict_tag st cab = upper st @ ''-'' @ upper cab"

definition mac_warnings :: "string \<Rightarrow> bmc_target list \<Rightarrow> log_entry list" where
  "mac_warnings tag ts =
     map (\<lambda>kv. Mac_conflict tag (fst kv) (sort (snd kv)))
       (filter (\<lambda>kv. length (snd kv) > 1) (mac_to_ips ts))"

definition hostname_warnings :: "string \<Rightarrow> bmc_target list \<Rightarrow> log_entry list" where
  "hostname_warnings tag ts =
     map (\<lambda>kv. Hostname_conflict tag (fst kv) (sort (snd kv)))
       (filter (\<lambda>kv. length (snd kv) > 1) (hostname_to_ips ts))"

definition rack_unit_warnings :: "string \<Rightarrow> bmc_target list \<Rightarrow> log_entry list" where
  "rack_unit_warnings tag ts =
     map (\<lambda>kv. Rack_unit_conflict tag (fst kv) (sort (snd kv)))
       (filter (\<lambda>kv. length (snd kv) > 1) (ru_usage ts))"

definition validate_bmc_conflicts :: "bmc_target list \<Rightarrow> string \<Rightarrow> string \<Rightarrow> log_entry list" where
  "validate_bmc_conflicts ts st cab =
     (let tag = conflict_tag st cab;
          warnings = mac_warnings tag ts @ hostname_warnings tag ts @ rack_unit_warnings tag ts
      in warnings @ (if warnings \<noteq> [] then [Conflicts_found tag] else []))"

text \<open>
  The sort of the targets: the key is the pair of the rack unit (\<open>-1\<close> without a host
  name) and the address, and \<^verbatim>\<open>reverse=True\<close> sorts in descending order of the whole
  key while keeping equal keys in their order, which is a stable ascending sort between
  two reversals.
\<close>

definition target_sort_key :: "bmc_target \<Rightarrow> int \<times> string" where
  "target_sort_key x =
     (if truthy (target_hostname x) then int (extract_rack_unit (or_empty (target_hostname x)))
      else - 1,
      ip x)"

definition sort_reverse :: "('a \<Rightarrow> 'k::linorder) \<Rightarrow> 'a list \<Rightarrow> 'a list" where
  "sort_reverse f xs = rev (sort_key f (rev xs))"

text \<open>
  \<^verbatim>\<open>_update_cabinet_inventory\<close>: load, merge, build, report conflicts, sort, write in
  full. A failed write raises after the merge has had its effects.
\<close>

definition inventory_file_name :: "string \<Rightarrow> string \<Rightarrow> string" where
  "inventory_file_name st cab = st @ ''-'' @ cab @ ''-discovery.yml''"

definition update_cabinet_inventory ::
  "LeaseProcessor \<Rightarrow> environment \<Rightarrow> string \<Rightarrow> string \<Rightarrow> DHCPLease list \<Rightarrow> state \<Rightarrow>
   (py_error + string) \<times> state" where
  "update_cabinet_inventory p e st cab leases s =
     (let output_file = inventory_file_name st cab;
          is_new_cabinet = (files s output_file = None);
          existing_bmc_map = load_existing p e (files s output_file);
          (m, new_lease_count, new_hostnames, s1) =
             merge_leases p e leases (existing_bmc_map, 0, [], s);
          targets = map build_target m;
          s2 = s1\<lparr>log := log s1 @ validate_bmc_conflicts targets st cab\<rparr>;
          doc = \<lparr>bmc_targets = sort_reverse target_sort_key targets,
                 metadata = \<lparr>updated_at = now e, source = ''kea_lease_monitor'',
                             site = st, cabinet = cab, total_count = length targets\<rparr>\<rparr>
      in if \<not> write_ok e output_file then (Inl OSError, s2)
         else (Inr output_file,
               s2\<lparr>files := (files s2)(output_file \<mapsto> Inventory doc),
                  log := log s2 @
                    (if new_lease_count > 0
                     then [Discovered (conflict_tag st cab)
                             (if is_new_cabinet
                              then sort_reverse extract_rack_unit new_hostnames
                              else new_hostnames)
                             output_file]
                     else [])\<rparr>))"

text \<open>
  \<^verbatim>\<open>generate_batch_inventory\<close>: leases are grouped by site and cabinet in the order of
  their first appearance, those without a match are dropped, and each group is
  reconciled in turn; an exception of one group ends the pass.
\<close>

definition group_leases :: "DHCPLease list \<Rightarrow> ((string \<times> string) \<times> DHCPLease list) list" where
  "group_leases leases =
     foldl (\<lambda>g lease. case extract_site_and_cabinet lease of
                         None \<Rightarrow> g
                       | Some key \<Rightarrow> dict_append g key lease) [] leases"

fun process_groups ::
  "LeaseProcessor \<Rightarrow> environment \<Rightarrow> ((string \<times> string) \<times> DHCPLease list) list \<Rightarrow>
   string list \<Rightarrow> state \<Rightarrow> (py_error + string list) \<times> state" where
  "process_groups p e [] updated_files s = (Inr updated_files, s)"
| "process_groups p e (g # gs) updated_files s =
     (case update_cabinet_inventory p e (fst (fst g)) (snd (fst g)) (snd g) s of
        (Inl err, s') \<Rightarrow> (Inl err, s')
      | (Inr f, s') \<Rightarrow> process_groups p e gs (updated_files @ [f]) s')"

definition generate_batch_inventory ::
  "LeaseProcessor \<Rightarrow> environment \<Rightarrow> DHCPLease list \<Rightarrow> state \<Rightarrow>
   (py_error + string option) \<times> state" where
  "generate_batch_inventory p e leases s =
     (if leases = [] then (Inr None, s)
      else if group_leases leases = [] then (Inr None, s)
      else case process_groups p e (group_leases leases) [] s of
             (Inl err, s') \<Rightarrow> (Inl err, s')
           | (Inr fs, s') \<Rightarrow> (Inr (if fs = [] then None else Some (last fs)), s'))"

section \<open>Lease sources\<close>

text \<open>
  \<^verbatim>\<open>int(s)\<close> on a field of the lease log: surrounding white space, an optional sign, and
  digits that single underscores may separate; anything else raises \<^verbatim>\<open>ValueError\<close>
  (\<open>None\<close>).
\<close>

definition is_space :: "char \<Rightarrow> bool" where
  "is_space c = ((of_char c :: nat) \<in> {9, 10, 11, 12, 13, 32})"

definition strip :: "string \<Rightarrow> string" where
  "strip s = rev (dropWhile is_space (rev (dropWhile is_space s)))"

fun digit_groups_ok :: "string \<Rightarrow> bool" where
  "digit_groups_ok [] = False"
| "digit_groups_ok [c] = is_digit c"
| "digit_groups_ok (c # d # cs) =
     (is_digit c \<and> (if d = CHR ''_'' then digit_groups_ok cs else digit_groups_ok (d # cs)))"

definition py_nat :: "string \<Rightarrow> nat option" where
  "py_nat s = (if digit_groups_ok s then Some (int_of_digits (filter is_digit s)) else None)"

definition py_int :: "string \<Rightarrow> int option" where
  "py_int s =
     (case strip s of
        [] \<Rightarrow> None
      | c # cs \<Rightarrow>
          if c = CHR ''-'' then map_option (\<lambda>n. - int n) (py_nat cs)
          else if c = CHR ''+'' then map_option int (py_nat cs)
          else map_option int (py_nat (c # cs)))"

text \<open>
  \<^verbatim>\<open>FileLeaseSource\<close>: the subnet filter (the set of the comma-separated ids, or
  \<^verbatim>\<open>None\<close>), the addresses already processed and the modification time seen last.
\<close>

record FileLeaseSource =
  subnet_filter :: "string list option"
  processed_leases :: "string set"
  last_mtime :: "real option"

text \<open>
  The lease log as a call finds it: its modification time and the rows the CSV reader
  yields, or \<open>None\<close> for the rows when reading raises.
\<close>

record lease_log =
  st_mtime :: real
  log_rows :: "string list list option"

definition parse_lease_line :: "FileLeaseSource \<Rightarrow> string list \<Rightarrow> DHCPLease option" where
  "parse_lease_line src line =
     (if length line < 9 then None
      else case (if line ! 4 \<noteq> [] then py_int (line ! 4) else Some 0) of
             None \<Rightarrow> None
           | Some expire_timestamp \<Rightarrow>
               if (case subnet_filter src of None \<Rightarrow> False
                   | Some f \<Rightarrow> f \<noteq> [] \<and> line ! 5 \<notin> set f)
               then None
               else Some \<lparr>ip_address = line ! 0,
                          mac_address = Some (line ! 1),
                          hostname = (if line ! 8 \<noteq> [] then Some (line ! 8) else None),
                          subnet_id = Some (line ! 5),
                          lease_timestamp = expire_timestamp\<rparr>)"

text \<open>
  \<^verbatim>\<open>FileLeaseSource.get_new_leases\<close>. The guard is
  \<^verbatim>\<open>if self.last_mtime and current_mtime == self.last_mtime\<close>: the first conjunct is the
  truth value of a float, false for \<^verbatim>\<open>None\<close> and for \<open>0.0\<close>.
\<close>

definition mtime_truthy :: "real option \<Rightarrow> bool" where
  "mtime_truthy t = (case t of None \<Rightarrow> False | Some x \<Rightarrow> x \<noteq> 0)"

definition new_leases_of_rows :: "FileLeaseSource \<Rightarrow> string list list \<Rightarrow> DHCPLease list" where
  "new_leases_of_rows src rs =
     concat (map (\<lambda>line. case parse_lease_line src line of
                           None \<Rightarrow> []
                         | Some lease \<Rightarrow>
                             if ip_address lease \<notin> processed_leases src then [lease] else [])
                 rs)"

definition get_new_leases ::
  "FileLeaseSource \<Rightarrow> lease_log option \<Rightarrow> DHCPLease list \<times> FileLeaseSource" where
  "get_new_leases src f =
     (case f of
        None \<Rightarrow> ([], src)
      | Some lg \<Rightarrow>
          if mtime_truthy (last_mtime src) \<and> Some (st_mtime lg) = last_mtime src
          then ([], src)
          else (case log_rows lg of
                  None \<Rightarrow> ([], src\<lparr>last_mtime := Some (st_mtime lg)\<rparr>)
                | Some rs \<Rightarrow>
                    (new_leases_of_rows src rs, src\<lparr>last_mtime := Some (st_mtime lg)\<rparr>)))"

definition mark_processed :: "FileLeaseSource \<Rightarrow> DHCPLease \<Rightarrow> FileLeaseSource" where
  "mark_processed src lease =
     src\<lparr>processed_leases := insert (ip_address lease) (processed_leases src)\<rparr>"

text \<open>
  \<^verbatim>\<open>DatabaseLeaseSource.get_new_leases\<close>, from the decoded JSON payload on: a payload
  without host name or address is skipped, an integer address becomes a dotted quad
  (out of range it raises \<^verbatim>\<open>ValueError\<close> and the payload is skipped), and the
  hardware identifier is cut into colon-separated pairs, or is \<^verbatim>\<open>None\<close>.
\<close>

datatype json_address = Address_int int | Address_str string

record notification =
  n_hostname :: "string option"
  n_ipv4_address :: "json_address option"
  n_dhcp_identifier :: "string option"

record DatabaseLeaseSource =
  source_subnet_id :: "nat option"
  processed_lease_ids :: "string set"

definition dotted_quad :: "int \<Rightarrow> string option" where
  "dotted_quad n =
     (if 0 \<le> n \<and> n < 2 ^ 32
      then Some (join ''.'' (map (\<lambda>k. str_nat (nat n div 256 ^ k mod 256)) [3, 2, 1, 0]))
      else None)"

definition notification_address :: "json_address option \<Rightarrow> string option" where
  "notification_address a =
     (case a of
        None \<Rightarrow> None
      | Some (Address_int n) \<Rightarrow> if n = 0 then None else dotted_quad n
      | Some (Address_str t) \<Rightarrow> if t = [] then None else Some t)"

definition lease_of_notification ::
  "DatabaseLeaseSource \<Rightarrow> int \<Rightarrow> notification \<Rightarrow> DHCPLease option" where
  "lease_of_notification src clock n =
     (if \<not> truthy (n_hostname n) then None
      else case notification_address (n_ipv4_address n) of
             None \<Rightarrow> None
           | Some addr \<Rightarrow>
               if addr \<in> processed_lease_ids src then None
               else Some \<lparr>ip_address = addr,
                          mac_address =
                            (if truthy (n_dhcp_identifier n)
                             then Some (join '':'' (pairs_of (or_empty (n_dhcp_identifier n))))
                             else None),
                          hostname = n_hostname n,
                          subnet_id =
                            (case source_subnet_id src of
                               None \<Rightarrow> None
                             | Some k \<Rightarrow> if k = 0 then None else Some (str_nat k)),
                          lease_timestamp = clock\<rparr>)"

fun drain_notifications ::
  "DatabaseLeaseSource \<Rightarrow> int \<Rightarrow> notification list \<Rightarrow> DHCPLease list \<Rightarrow>
   DHCPLease list \<times> DatabaseLeaseSource" where
  "drain_notifications src clock [] new_leases = (new_leases, src)"
| "drain_notifications src clock (n # ns) new_leases =
     (case lease_of_notification src clock n of
        None \<Rightarrow> drain_notifications src clock ns new_leases
      | Some lease \<Rightarrow>
          drain_notifications
            (src\<lparr>processed_lease_ids := insert (ip_address lease) (processed_lease_ids src)\<rparr>)
            clock ns (new_leases @ [lease]))"

section \<open>Example processors, environments and leases\<close>

text \<open>
  The data of the concrete runs below: a processor without a database (the default of
  the command line), one with database and DNS, a directory that refuses every record,
  and an empty output directory and store.
\<close>

definition file_mode :: LeaseProcessor where
  "file_mode = \<lparr>db_enabled = False, proc_subnet_id = 1, enable_dns = False, dns_zone = None\<rparr>"

definition dns_mode :: LeaseProcessor where
  "dns_mode = \<lparr>db_enabled = True, proc_subnet_id = 1, enable_dns = True,
                dns_zone = Some ''site.com''\<rparr>"

definition dns_down :: environment where
  "dns_down =
     \<lparr>db_reachable = True, db_execute_ok = (\<lambda>t k r. True), dns_modules = True,
      sds_create_ok = (\<lambda>h a. False), lease4_query = (\<lambda>a. NoRow), write_ok = (\<lambda>f. True),
      now = ''2025-12-01T00:00:00+00:00''\<rparr>"

definition fresh :: state where
  "fresh = \<lparr>files = Map.empty, hosts = Map.empty, dns_records = [], log = []\<rparr>"

definition lease_of :: "string \<Rightarrow> string option \<Rightarrow> string \<Rightarrow> DHCPLease" where
  "lease_of a m h =
     \<lparr>ip_address = a, mac_address = m, hostname = (if h = [] then None else Some h),
      subnet_id = Some ''1'', lease_timestamp = 1764547200\<rparr>"

definition cabinet_doc :: "bmc_target list \<Rightarrow> inventory" where
  "cabinet_doc ts =
     \<lparr>bmc_targets = ts,
      metadata = \<lparr>updated_at = ''2025-12-01T00:00:00+00:00'', source = ''kea_lease_monitor'',
                  site = ''us3'', cabinet = ''cab10'', total_count = length ts\<rparr>\<rparr>"

definition with_file :: "bmc_target list \<Rightarrow> state" where
  "with_file ts =
     fresh\<lparr>files := [''us3-cab10-discovery.yml'' \<mapsto> Inventory (cabinet_doc ts)]\<rparr>"

text \<open>
  A target as an earlier pass left it in the file of cabinet 10, with a rack-unit string
  in another format and a given manufacturer; the same target as the next pass writes
  it; the lease for its address; a target with nothing but an address and a host name;
  a lease without hardware address; and a lease log of one row.
\<close>

definition persisted :: "string \<Rightarrow> bmc_target" where
  "persisted manu =
     \<lparr>ip = ''10.0.0.5'', mac = Some ''aa:bb:cc:dd:ee:05'',
      target_hostname = Some ''us3-cab10-ru5-idrac'', rack_unit = Some ''RU 05'',
      manufacturer = Some manu\<rparr>"

definition rewritten :: "string \<Rightarrow> bmc_target" where
  "rewritten manu =
     \<lparr>ip = ''10.0.0.5'', mac = Some ''aa:bb:cc:dd:ee:05'',
      target_hostname = Some ''us3-cab10-ru5-idrac'', rack_unit = Some ''RU 5'',
      manufacturer = Some manu\<rparr>"

definition lease_ru5 :: DHCPLease where
  "lease_ru5 = lease_of ''10.0.0.5'' (Some ''aa:bb:cc:dd:ee:05'') ''us3-cab10-ru5-idrac''"

definition bare_target :: "string \<Rightarrow> string option \<Rightarrow> bmc_target" where
  "bare_target a h =
     \<lparr>ip = a, mac = None, target_hostname = h, rack_unit = None, manufacturer = None\<rparr>"

definition lease_nomac :: DHCPLease where
  "lease_nomac = lease_of ''10.0.0.5'' (Some []) ''us3-cab10-ru5-idrac''"

definition new_source :: FileLeaseSource where
  "new_source = \<lparr>subnet_filter = None, processed_leases = {}, last_mtime = None\<rparr>"

definition log_at :: "real \<Rightarrow> lease_log" where
  "log_at t =
     \<lparr>st_mtime = t,
      log_rows = Some [[''10.0.0.5'', ''aa:bb:cc:dd:ee:05'', ''01:aa:bb:cc:dd:ee:05'', ''3600'',
                        ''1764547200'', ''1'', ''0'', ''0'', ''us3-cab10-ru5-idrac'', ''0'']]\<rparr>"

text \<open>Two leases, and the targets built from them, that share one hardware address.\<close>

definition twin_target :: "string \<Rightarrow> string \<Rightarrow> string \<Rightarrow> bmc_target" where
  "twin_target a h ru =
     \<lparr>ip = a, mac = Some ''aa:bb:cc:dd:ee:01'', target_hostname = Some h,
      rack_unit = Some ru, manufacturer = Some ''Dell''\<rparr>"

definition twin_leases :: "DHCPLease list" where
  "twin_leases =
     [lease_of ''10.0.0.1'' (Some ''aa:bb:cc:dd:ee:01'') ''us3-cab10-ru3-idrac'',
      lease_of ''10.0.0.2'' (Some ''aa:bb:cc:dd:ee:01'') ''us3-cab10-ru9-idrac'']"

text \<open>
  Four leases of one cabinet whose addresses do not follow their rack units, and the
  target list a pass writes for them next to a known target without host name.
\<close>

definition shelf_leases :: "DHCPLease list" where
  "shelf_leases =
     [lease_of ''10.0.0.2'' (Some ''aa:bb:cc:dd:ee:02'') ''us3-cab10-ru3-idrac'',
      lease_of ''10.0.0.1'' (Some ''aa:bb:cc:dd:ee:01'') ''us3-cab10-ru10-idrac'',
      lease_of ''10.0.0.3'' (Some ''aa:bb:cc:dd:ee:03'') ''us3-cab10-ru9-idrac'',
      lease_of ''10.0.0.4'' (Some ''aa:bb:cc:dd:ee:04'') ''us3-cab10-ru9-ilo'']"

definition shelf_targets :: "bmc_target list" where
  "shelf_targets =
     [\<lparr>ip = ''10.0.0.1'', mac = Some ''aa:bb:cc:dd:ee:01'',
       target_hostname = Some ''us3-cab10-ru10-idrac'',
       rack_unit = Some ''RU 10'', manufacturer = Some ''Dell''\<rparr>,
      \<lparr>ip = ''10.0.0.4'', mac = Some ''aa:bb:cc:dd:ee:04'',
       target_hostname = Some ''us3-cab10-ru9-ilo'',
       rack_unit = Some ''RU 9'', manufacturer = Some ''HP''\<rparr>,
      \<lparr>ip = ''10.0.0.3'', mac = Some ''aa:bb:cc:dd:ee:03'',
       target_hostname = Some ''us3-cab10-ru9-idrac'',
       rack_unit = Some ''RU 9'', manufacturer = Some ''Dell''\<rparr>,
      \<lparr>ip = ''10.0.0.2'', mac = Some ''aa:bb:cc:dd:ee:02'',
       target_hostname = Some ''us3-cab10-ru3-idrac'',
       rack_unit = Some ''RU 3'', manufacturer = Some ''Dell''\<rparr>,
      \<lparr>ip = ''10.0.0.9'', mac = Some ''aa:bb:cc:dd:ee:09'',
       target_hostname = None, rack_unit = None, manufacturer = None\<rparr>]"

section \<open>Facts about the dictionaries, the merge and the sort\<close>

lemma map_of_dict_set: "map_of (dict_set m k v) = (map_of m)(k \<mapsto> v)"
  by (induction m k v rule: dict_set.induct) auto

lemma keys_dict_set:
  "map fst (dict_set m k v) = (if k \<in> set (map fst m) then map fst m else map fst m @ [k])"
  by (induction m k v rule: dict_set.induct) auto

lemma dict_set_new: "map_of m k = None \<Longrightarrow> dict_set m k v = m @ [(k, v)]"
  by (induction m k v rule: dict_set.induct) (auto split: if_splits)

lemma distinct_dict_set: "distinct (map fst m) \<Longrightarrow> distinct (map fst (dict_set m k v))"
  by (simp add: keys_dict_set)

lemma map_of_dict_append:
  "map_of (dict_append d k v) =
     (map_of d)(k \<mapsto> (case map_of d k of None \<Rightarrow> [v] | Some vs \<Rightarrow> vs @ [v]))"
  by (induction d k v rule: dict_append.induct) auto

lemma keys_dict_append:
  "map fst (dict_append d k v) = (if k \<in> set (map fst d) then map fst d else map fst d @ [k])"
  by (induction d k v rule: dict_append.induct) auto

lemma distinct_dict_append: "distinct (map fst d) \<Longrightarrow> distinct (map fst (dict_append d k v))"
  by (simp add: keys_dict_append)

lemma dict_append_cases:
  "(k', vs') \<in> set (dict_append d k v) \<Longrightarrow>
   (k', vs') \<in> set d \<or> (k' = k \<and> (vs' = [v] \<or> (\<exists>vs. (k, vs) \<in> set d \<and> vs' = vs @ [v])))"
  by (induction d k v rule: dict_append.induct) (auto split: if_splits)

lemma filter_key_absent: "k \<notin> fst ` set d \<Longrightarrow> filter (\<lambda>kv. fst kv = k) d = []"
  by (induction d) auto

lemma filter_key_distinct:
  "distinct (map fst d) \<Longrightarrow> map_of d k = Some v \<Longrightarrow> filter (\<lambda>kv. fst kv = k) d = [(k, v)]"
proof (induction d)
  case Nil
  then show ?case by simp
next
  case (Cons a d)
  show ?case
  proof (cases "fst a = k")
    case True
    with Cons.prems have "a = (k, v)" by (cases a) auto
    moreover from Cons.prems True have "filter (\<lambda>kv. fst kv = k) d = []"
      by (intro filter_key_absent) auto
    ultimately show ?thesis by simp
  next
    case False
    with Cons show ?thesis by (cases a) auto
  qed
qed

lemma two_elements_length: "a \<in> set xs \<Longrightarrow> b \<in> set xs \<Longrightarrow> a \<noteq> b \<Longrightarrow> 1 < length xs"
  by (cases xs; cases "tl xs") auto

text \<open>The reversed sort is descending in its key and keeps the elements.\<close>

lemma sorted_wrt_sort_reverse: "sorted_wrt (\<lambda>a b. f b \<le> f a) (sort_reverse f xs)"
proof -
  have "sorted (map f (sort_key f (rev xs)))" by simp
  then have "sorted_wrt (\<lambda>a b. f a \<le> f b) (sort_key f (rev xs))"
    by (simp add: sorted_map)
  then show ?thesis
    by (simp add: sort_reverse_def sorted_wrt_rev)
qed

lemma set_sort_reverse: "set (sort_reverse f xs) = set xs"
  by (simp add: sort_reverse_def)

text \<open>
  The merge only appends: the map it returns is the map it was given followed by entries
  for addresses that were not keys, each taken from a lease of the batch.
\<close>

lemma merge_leases_extends:
  "merge_leases p e leases (m, n, hs, s) = (m', n', hs', s') \<Longrightarrow>
   \<exists>new. m' = m @ new
     \<and> (\<forall>kd \<in> set new. map_of m (fst kd) = None
           \<and> (\<exists>l \<in> set leases. ip_address l = fst kd \<and> snd kd = details_of_lease l))
     \<and> (distinct (map fst m) \<longrightarrow> distinct (map fst m'))
     \<and> (\<forall>l \<in> set leases. map_of m' (ip_address l) \<noteq> None)"
proof (induction leases arbitrary: m n hs s)
  case Nil
  then show ?case by simp
next
  case (Cons lease rest)
  show ?case
  proof (cases "map_of m (ip_address lease) = None")
    case False
    with Cons.prems have "merge_leases p e rest (m, n, hs, s) = (m', n', hs', s')" by simp
    from Cons.IH[OF this] obtain new where new: "m' = m @ new"
      "\<forall>kd \<in> set new. map_of m (fst kd) = None
           \<and> (\<exists>l \<in> set rest. ip_address l = fst kd \<and> snd kd = details_of_lease l)"
      "distinct (map fst m) \<longrightarrow> distinct (map fst m')"
      "\<forall>l \<in> set rest. map_of m' (ip_address l) \<noteq> None" by blast
    from False new(1) have "map_of m' (ip_address lease) \<noteq> None" by auto
    with new show ?thesis by auto
  next
    case True
    let ?m1 = "m @ [(ip_address lease, details_of_lease lease)]"
    from True have ds: "dict_set m (ip_address lease) (details_of_lease lease) = ?m1"
      by (rule dict_set_new)
    from Cons.prems True ds obtain n1 hs1 s1 where
      "merge_leases p e rest (?m1, n1, hs1, s1) = (m', n', hs', s')"
      by (auto split: if_splits)
    from Cons.IH[OF this] obtain new where new: "m' = ?m1 @ new"
      "\<forall>kd \<in> set new. map_of ?m1 (fst kd) = None
           \<and> (\<exists>l \<in> set rest. ip_address l = fst kd \<and> snd kd = details_of_lease l)"
      "distinct (map fst ?m1) \<longrightarrow> distinct (map fst m')"
      "\<forall>l \<in> set rest. map_of m' (ip_address l) \<noteq> None" by blast
    have 1: "m' = m @ ((ip_address lease, details_of_lease lease) # new)" using new(1) by simp
    have 2: "\<forall>kd \<in> set ((ip_address lease, details_of_lease lease) # new).
               map_of m (fst kd) = None
               \<and> (\<exists>l \<in> set (lease # rest). ip_address l = fst kd \<and> snd kd = details_of_lease l)"
    proof
      fix kd assume "kd \<in> set ((ip_address lease, details_of_lease lease) # new)"
      then consider "kd = (ip_address lease, details_of_lease lease)" | "kd \<in> set new" by auto
      then show "map_of m (fst kd) = None
               \<and> (\<exists>l \<in> set (lease # rest). ip_address l = fst kd \<and> snd kd = details_of_lease l)"
      proof cases
        case 1
        with True show ?thesis by simp
      next
        case 2
        with new(2) have a: "map_of ?m1 (fst kd) = None"
          and b: "\<exists>l \<in> set rest. ip_address l = fst kd \<and> snd kd = details_of_lease l" by auto
        from a have "map_of m (fst kd) = None"
          by (auto simp: map_add_def split: option.splits if_splits)
        with b show ?thesis by auto
      qed
    qed
    have 3: "distinct (map fst m) \<longrightarrow> distinct (map fst m')"
    proof
      assume "distinct (map fst m)"
      with True have "distinct (map fst ?m1)" by (auto simp: map_of_eq_None_iff)
      with new(3) show "distinct (map fst m')" by simp
    qed
    have 4: "\<forall>l \<in> set (lease # rest). map_of m' (ip_address l) \<noteq> None"
      using new(4) 1 by (auto simp: map_add_def split: option.splits)
    from 1 2 3 4 show ?thesis by blast
  qed
qed

lemma distinct_foldl_dict_set:
  "distinct (map fst m) \<Longrightarrow> distinct (map fst (foldl (\<lambda>m t. dict_set m (k t) (v t)) m ts))"
  by (induction ts arbitrary: m) (simp_all add: distinct_dict_set)

lemma distinct_load_existing: "distinct (map fst (load_existing p e f))"
proof -
  have a: "\<And>ts. distinct (map fst (foldl (\<lambda>m t. dict_set m (ip t) (details_of_target t)) [] ts))"
    by (rule distinct_foldl_dict_set) simp
  have b: "\<And>as. distinct (map fst (foldl (\<lambda>m a. dict_set m a (query_lease_details p e a)) [] as))"
    by (rule distinct_foldl_dict_set[where k = "\<lambda>a. a"]) simp
  show ?thesis
    unfolding load_existing_def
    using a b by (auto split: option.splits inventory_file.splits list.splits simp del: foldl_Cons)
qed

lemma detect_manufacturer_nonempty: "detect_manufacturer h \<noteq> []"
  by (simp add: detect_manufacturer_def)

text \<open>What one pass returns and writes, in terms of the result of its merge.\<close>

lemma update_cabinet_inventory_result:
  assumes "merge_leases p e leases
             (load_existing p e (files s (inventory_file_name st cab)), 0, [], s) = (m, n, hs, s1)"
  shows "update_cabinet_inventory p e st cab leases s =
     (if \<not> write_ok e (inventory_file_name st cab)
      then (Inl OSError, s1\<lparr>log := log s1 @ validate_bmc_conflicts (map build_target m) st cab\<rparr>)
      else (Inr (inventory_file_name st cab),
            s1\<lparr>files := (files s1)(inventory_file_name st cab \<mapsto>
                   Inventory \<lparr>bmc_targets = sort_reverse target_sort_key (map build_target m),
                     metadata = \<lparr>updated_at = now e, source = ''kea_lease_monitor'',
                                 site = st, cabinet = cab, total_count = length m\<rparr>\<rparr>),
               log := log s1 @ validate_bmc_conflicts (map build_target m) st cab @
                    (if n > 0
                     then [Discovered (conflict_tag st cab)
                             (if files s (inventory_file_name st cab) = None
                              then sort_reverse extract_rack_unit hs
                              else hs)
                             (inventory_file_name st cab)]
                     else [])\<rparr>))"
  using assms by (simp add: update_cabinet_inventory_def Let_def)

lemma written_doc:
  assumes "fst (update_cabinet_inventory p e st cab leases s) = Inr f"
    and "files (snd (update_cabinet_inventory p e st cab leases s)) f = Some (Inventory doc)"
  shows "bmc_targets doc =
           sort_reverse target_sort_key
             (map build_target
               (fst (merge_leases p e leases
                  (load_existing p e (files s (inventory_file_name st cab)), 0, [], s))))"
proof -
  obtain m n hs s1 where mg: "merge_leases p e leases
             (load_existing p e (files s (inventory_file_name st cab)), 0, [], s) = (m, n, hs, s1)"
    by (metis prod_cases4)
  from assms show ?thesis
    unfolding update_cabinet_inventory_result[OF mg] mg
    by (auto split: if_splits)
qed

text \<open>The groups of a batch hold leases of the batch, each under its own site and cabinet.\<close>

lemma group_step_skip:
  "extract_site_and_cabinet lease = None \<Longrightarrow>
   group_leases (xs @ lease # ys) = group_leases (xs @ ys)"
  by (simp add: group_leases_def)

lemma group_leases_snoc:
  "group_leases (ls @ [l]) =
     (case extract_site_and_cabinet l of
        None \<Rightarrow> group_leases ls
      | Some key \<Rightarrow> dict_append (group_leases ls) key l)"
  by (simp add: group_leases_def split: option.splits)

lemma group_leases_sound:
  "g \<in> set (group_leases leases) \<Longrightarrow> l \<in> set (snd g) \<Longrightarrow>
   l \<in> set leases \<and> extract_site_and_cabinet l = Some (fst g)"
proof (induction leases arbitrary: g l rule: rev_induct)
  case Nil
  then show ?case by (simp add: group_leases_def)
next
  case (snoc x xs)
  show ?case
  proof (cases "extract_site_and_cabinet x")
    case None
    with snoc.prems(1) have "g \<in> set (group_leases xs)" by (simp add: group_leases_snoc)
    from snoc.IH[OF this snoc.prems(2)] show ?thesis by simp
  next
    case (Some key)
    with snoc.prems(1) have "(fst g, snd g) \<in> set (dict_append (group_leases xs) key x)"
      by (simp add: group_leases_snoc)
    from dict_append_cases[OF this]
    consider "g \<in> set (group_leases xs)"
      | "fst g = key" "snd g = [x]"
      | vs where "fst g = key" "(key, vs) \<in> set (group_leases xs)" "snd g = vs @ [x]"
      by auto
    then show ?thesis
    proof cases
      case 1
      from snoc.IH[OF this snoc.prems(2)] show ?thesis by simp
    next
      case 2
      with snoc.prems(2) Some show ?thesis by simp
    next
      case 3
      from snoc.prems(2) 3(3) consider "l \<in> set vs" | "l = x" by auto
      then show ?thesis
      proof cases
        case 1
        from snoc.IH[OF 3(2)] 1 3(1) show ?thesis by simp
      next
        case 2
        with Some 3(1) show ?thesis by simp
      qed
    qed
  qed
qed

text \<open>The addresses recorded for a hardware address are those of the targets that carry it.\<close>

lemma mac_to_ips_snoc:
  "mac_to_ips (ts @ [t]) =
     (if truthy (mac t) then dict_append (mac_to_ips ts) (or_empty (mac t)) (ip t)
      else mac_to_ips ts)"
  by (simp add: mac_to_ips_def)

lemma mac_to_ips_keys: "distinct (map fst (mac_to_ips ts))"
  by (induction ts rule: rev_induct)
     (simp_all add: mac_to_ips_snoc distinct_dict_append, simp add: mac_to_ips_def)

lemma mac_to_ips_lookup:
  "map_of (mac_to_ips ts) m =
     (if filter (\<lambda>t. truthy (mac t) \<and> or_empty (mac t) = m) ts = [] then None
      else Some (map ip (filter (\<lambda>t. truthy (mac t) \<and> or_empty (mac t) = m) ts)))"
proof (induction ts rule: rev_induct)
  case Nil
  then show ?case by (simp add: mac_to_ips_def)
next
  case (snoc t ts)
  then show ?case
    by (auto simp: mac_to_ips_snoc map_of_dict_append)
qed

text \<open>
  The poll source: after a call that found the log, the modification time is recorded,
  and with a time other than zero a second call at the same time returns nothing and
  leaves the source as it is, without looking at the rows.
\<close>

lemma first_call_mtime:
  "last_mtime (snd (get_new_leases src (Some lg))) =
     (if mtime_truthy (last_mtime src) \<and> Some (st_mtime lg) = last_mtime src
      then last_mtime src else Some (st_mtime lg))"
  by (cases "log_rows lg") (simp_all add: get_new_leases_def)

lemma unchanged_mtime_skips_read:
  assumes "st_mtime lg \<noteq> 0" and "st_mtime lg' = st_mtime lg"
  shows "get_new_leases (snd (get_new_leases src (Some lg))) (Some lg')
           = ([], snd (get_new_leases src (Some lg)))"
proof -
  have "last_mtime (snd (get_new_leases src (Some lg))) = Some (st_mtime lg)"
    unfolding first_call_mtime by simp
  with assms show ?thesis
    by (simp add: get_new_leases_def[of "snd (get_new_leases src (Some lg))"] mtime_truthy_def)
qed

text \<open>The row of the example log parses to the lease for 10.0.0.5.\<close>

lemma rows_of_log:
  "new_leases_of_rows (new_source\<lparr>last_mtime := Some 0\<rparr>)
     [[''10.0.0.5'', ''aa:bb:cc:dd:ee:05'', ''01:aa:bb:cc:dd:ee:05'', ''3600'',
       ''1764547200'', ''1'', ''0'', ''0'', ''us3-cab10-ru5-idrac'', ''0'']] = [lease_ru5]"
proof -
  have t: "py_int ''1764547200'' = Some 1764547200"
    by (simp add: py_int_def strip_def is_space_def py_nat_def is_digit_def int_of_digits_def
        digit_val_def)
  show ?thesis
    by (simp add: new_leases_of_rows_def parse_lease_line_def new_source_def t lease_ru5_def
        lease_of_def)
qed

section \<open>The claims\<close>



text \<open>
  Claim C2. With the database and DNS enabled, a lease with a host name and a hardware
  address, a reachable store that executes the upsert, and a DNS creation that returns
  \<^verbatim>\<open>False\<close>: \<^verbatim>\<open>create_static_reservation\<close> returns \<^verbatim>\<open>False\<close> and the state afterwards is
  the state before, so the reservation store holds no new or updated row.
\<close>

theorem dns_failure_rolls_back:
  assumes "db_enabled p" and "enable_dns p"
    and "truthy (hostname lease)" and "mac_address lease = Some m"
    and "db_reachable e"
    and "db_execute_ok e (hosts s)
           (upper (filter (\<lambda>c. c \<noteq> CHR '':'') m), proc_subnet_id p)
           (ip_address lease, or_empty (hostname lease))"
    and "fst (create_dns_record p e (or_empty (hostname lease)) (ip_address lease) s) = False"
  shows "create_static_reservation p e lease s = (False, s)"
proof -
  from assms(7)
  have dns: "create_dns_record p e (or_empty (hostname lease)) (ip_address lease) s = (False, s)"
    by (auto simp: create_dns_record_def split: if_splits)
  show ?thesis
    using assms(1-6) dns
    by (simp add: create_static_reservation_def reservation_transaction_def connect_def
        execute_upsert_def rollback_def close_def Let_def)
qed

text \<open>C2 on a lease for 10.0.0.5 against a directory that refuses the record.\<close>

theorem dns_failure_rolls_back_witness:
  "db_enabled dns_mode \<and> enable_dns dns_mode
   \<and> truthy (hostname (lease_of ''10.0.0.5'' (Some ''aa:bb:cc:dd:ee:05'') ''us3-cab10-ru5-idrac''))
   \<and> db_reachable dns_down
   \<and> db_execute_ok dns_down (hosts fresh) (''AABBCCDDEE05'', 1)
        (''10.0.0.5'', ''us3-cab10-ru5-idrac'')
   \<and> fst (create_dns_record dns_mode dns_down ''us3-cab10-ru5-idrac'' ''10.0.0.5'' fresh) = False
   \<and> create_static_reservation dns_mode dns_down
        (lease_of ''10.0.0.5'' (Some ''aa:bb:cc:dd:ee:05'') ''us3-cab10-ru5-idrac'') fresh
       = (False, fresh)"
proof -
  let ?l = "lease_of ''10.0.0.5'' (Some ''aa:bb:cc:dd:ee:05'') ''us3-cab10-ru5-idrac''"
  have h1: "db_enabled dns_mode" and h2: "enable_dns dns_mode"
    by (simp_all add: dns_mode_def)
  have h3: "truthy (hostname ?l)" and h4: "mac_address ?l = Some ''aa:bb:cc:dd:ee:05''"
    by (simp_all add: lease_of_def)
  have h5: "db_reachable dns_down" by (simp add: dns_down_def)
  have up: "upper (filter (\<lambda>c. c \<noteq> CHR '':'') ''aa:bb:cc:dd:ee:05'') = ''AABBCCDDEE05''"
    by code_simp
  have h6: "db_execute_ok dns_down (hosts fresh)
           (upper (filter (\<lambda>c. c \<noteq> CHR '':'') ''aa:bb:cc:dd:ee:05''), proc_subnet_id dns_mode)
           (ip_address ?l, or_empty (hostname ?l))"
    by (simp add: dns_down_def)
  have h7: "fst (create_dns_record dns_mode dns_down (or_empty (hostname ?l)) (ip_address ?l) fresh)
            = False"
    by (simp add: create_dns_record_def dns_mode_def dns_down_def)
  have eqs: "or_empty (hostname ?l) = ''us3-cab10-ru5-idrac''" "ip_address ?l = ''10.0.0.5''"
     "proc_subnet_id dns_mode = 1"
    by (simp_all add: lease_of_def dns_mode_def)
  from dns_failure_rolls_back[OF h1 h2 h3 h4 h5 h6 h7] h1 h2 h3 h5 h6 h7
  show ?thesis unfolding up eqs by blast
qed

text \<open>
  Claim C10. For a lease with a non-empty host name and no hardware address
  (\<^verbatim>\<open>None\<close>), \<^verbatim>\<open>create_static_reservation\<close> returns \<^verbatim>\<open>False\<close> and leaves the state as it
  was; with the database enabled the body of its \<^verbatim>\<open>try\<close> ends in the
  \<^verbatim>\<open>AttributeError\<close> that the handler catches, before any connection is opened.
\<close>

theorem missing_mac_is_caught:
  assumes "truthy (hostname lease)" and "mac_address lease = None"
  shows "create_static_reservation p e lease s = (False, s)
       \<and> (db_enabled p \<longrightarrow> reservation_transaction p e lease s = Inl AttributeError)"
  using assms by (simp add: create_static_reservation_def reservation_transaction_def)

text \<open>The notification source produces such leases: a payload without identifier.\<close>

lemma notification_without_identifier:
  assumes "lease_of_notification src clock n = Some lease" and "\<not> truthy (n_dhcp_identifier n)"
  shows "mac_address lease = None \<and> truthy (hostname lease)"
  using assms
  by (auto simp: lease_of_notification_def split: if_splits option.splits)

text \<open>
  C10 on the lease that the notification source decodes from a payload with host name
  and address 10.0.0.5 but no \<^verbatim>\<open>dhcp_identifier\<close>.
\<close>

theorem missing_mac_is_caught_witness:
  "lease_of_notification \<lparr>source_subnet_id = None, processed_lease_ids = {}\<rparr> 1764547200
      \<lparr>n_hostname = Some ''us3-cab10-ru5-idrac'', n_ipv4_address = Some (Address_int 167772165),
       n_dhcp_identifier = None\<rparr>
     = Some \<lparr>ip_address = ''10.0.0.5'', mac_address = None,
             hostname = Some ''us3-cab10-ru5-idrac'', subnet_id = None,
             lease_timestamp = 1764547200\<rparr>
   \<and> db_enabled dns_mode
   \<and> create_static_reservation dns_mode dns_down
        \<lparr>ip_address = ''10.0.0.5'', mac_address = None,
         hostname = Some ''us3-cab10-ru5-idrac'', subnet_id = None,
         lease_timestamp = 1764547200\<rparr> fresh = (False, fresh)
   \<and> reservation_transaction dns_mode dns_down
        \<lparr>ip_address = ''10.0.0.5'', mac_address = None,
         hostname = Some ''us3-cab10-ru5-idrac'', subnet_id = None,
         lease_timestamp = 1764547200\<rparr> fresh = Inl AttributeError"
proof -
  let ?l = "\<lparr>ip_address = ''10.0.0.5'', mac_address = None,
         hostname = Some ''us3-cab10-ru5-idrac'', subnet_id = None,
         lease_timestamp = 1764547200\<rparr>"
  have n: "lease_of_notification \<lparr>source_subnet_id = None, processed_lease_ids = {}\<rparr> 1764547200
      \<lparr>n_hostname = Some ''us3-cab10-ru5-idrac'', n_ipv4_address = Some (Address_int 167772165),
       n_dhcp_identifier = None\<rparr> = Some ?l"
  proof -
    have "dotted_quad 167772165 = Some ''10.0.0.5''"
      by (simp add: dotted_quad_def str_nat.simps digit_char_def, code_simp)
    then show ?thesis
      by (simp add: lease_of_notification_def notification_address_def)
  qed
  have h1: "truthy (hostname ?l)" and h2: "mac_address ?l = None" by simp_all
  have h3: "db_enabled dns_mode" by (simp add: dns_mode_def)
  from missing_mac_is_caught[OF h1 h2, of dns_mode dns_down fresh] n h3
  show ?thesis by blast
qed

text \<open>
  Claim C5. The merge step keeps every entry of the loaded inventory as it is: for an
  address that is a key before the merge, the details (hardware address, host name,
  manufacturer) are the same after it, whatever the batch holds for that address. An
  address that is a key only afterwards has the details of a lease of the batch with that
  address, and every lease of the batch has its address among the keys afterwards. The
  file the pass writes holds, for each loaded address, the target built from the loaded
  details.
\<close>

theorem first_write_wins:
  "(\<forall>a d. map_of existing a = Some d \<longrightarrow>
       map_of (fst (merge_leases p e leases (existing, n, hs, s))) a = Some d)
   \<and> (\<forall>a d. map_of existing a = None \<longrightarrow>
         map_of (fst (merge_leases p e leases (existing, n, hs, s))) a = Some d \<longrightarrow>
         (\<exists>l \<in> set leases. ip_address l = a \<and> d = details_of_lease l))
   \<and> (\<forall>l \<in> set leases.
         map_of (fst (merge_leases p e leases (existing, n, hs, s))) (ip_address l) \<noteq> None)
   \<and> (fst (update_cabinet_inventory p e st cab leases s) = Inr f \<longrightarrow>
       files (snd (update_cabinet_inventory p e st cab leases s)) f = Some (Inventory doc) \<longrightarrow>
       (\<forall>a d. map_of (load_existing p e (files s (inventory_file_name st cab))) a = Some d \<longrightarrow>
              build_target (a, d) \<in> set (bmc_targets doc)))"
proof -
  obtain m' n' hs' s' where mg: "merge_leases p e leases (existing, n, hs, s) = (m', n', hs', s')"
    by (metis prod_cases4)
  from merge_leases_extends[OF mg] obtain new where new: "m' = existing @ new"
    "\<forall>kd \<in> set new. map_of existing (fst kd) = None
           \<and> (\<exists>l \<in> set leases. ip_address l = fst kd \<and> snd kd = details_of_lease l)"
    "\<forall>l \<in> set leases. map_of m' (ip_address l) \<noteq> None" by blast
  have 1: "\<forall>a d. map_of existing a = Some d \<longrightarrow> map_of m' a = Some d"
    using new(1) by (simp add: map_add_Some_iff)
  have 2: "\<forall>a d. map_of existing a = None \<longrightarrow> map_of m' a = Some d \<longrightarrow>
             (\<exists>l \<in> set leases. ip_address l = a \<and> d = details_of_lease l)"
  proof (intro allI impI)
    fix a d assume "map_of existing a = None" "map_of m' a = Some d"
    with new(1) have "map_of new a = Some d" by (simp add: map_add_Some_iff)
    then have "(a, d) \<in> set new" by (rule map_of_SomeD)
    with new(2) show "\<exists>l \<in> set leases. ip_address l = a \<and> d = details_of_lease l" by force
  qed
  have 4: "build_target (a, d) \<in> set (bmc_targets doc)"
    if w: "fst (update_cabinet_inventory p e st cab leases s) = Inr f"
      "files (snd (update_cabinet_inventory p e st cab leases s)) f = Some (Inventory doc)"
      and ex: "map_of (load_existing p e (files s (inventory_file_name st cab))) a = Some d"
    for a d
  proof -
    let ?ex = "load_existing p e (files s (inventory_file_name st cab))"
    obtain m2 n2 hs2 s2 where mg2: "merge_leases p e leases (?ex, 0, [], s) = (m2, n2, hs2, s2)"
      by (metis prod_cases4)
    from merge_leases_extends[OF mg2] obtain new2 where "m2 = ?ex @ new2" by blast
    moreover from ex have "(a, d) \<in> set ?ex" by (rule map_of_SomeD)
    ultimately have "(a, d) \<in> set m2" by simp
    moreover from written_doc[OF w] mg2
    have "bmc_targets doc = sort_reverse target_sort_key (map build_target m2)" by simp
    ultimately show ?thesis by (simp add: set_sort_reverse)
  qed
  from 1 2 new(3) 4 show ?thesis unfolding mg by simp
qed

text \<open>
  C5 on an inventory that knows 10.0.0.1 and a batch with another lease for 10.0.0.1 and
  a lease for 10.0.0.2.
\<close>

theorem first_write_wins_witness:
  "map_of [(''10.0.0.1'', \<lparr>d_mac = Some ''aa:bb:cc:dd:ee:01'',
              d_hostname = ''us3-cab10-ru3-idrac'', d_manufacturer = ''Dell''\<rparr>)] ''10.0.0.1''
     = Some \<lparr>d_mac = Some ''aa:bb:cc:dd:ee:01'',
              d_hostname = ''us3-cab10-ru3-idrac'', d_manufacturer = ''Dell''\<rparr>
   \<and> map_of (fst (merge_leases file_mode dns_down
        [lease_of ''10.0.0.1'' (Some ''ff:ff:ff:ff:ff:01'') ''us3-cab10-ru7-ilo'',
         lease_of ''10.0.0.2'' (Some ''aa:bb:cc:dd:ee:02'') ''us3-cab10-ru9-idrac'']
        ([(''10.0.0.1'', \<lparr>d_mac = Some ''aa:bb:cc:dd:ee:01'',
              d_hostname = ''us3-cab10-ru3-idrac'', d_manufacturer = ''Dell''\<rparr>)], 0, [], fresh)))
       ''10.0.0.1''
     = Some \<lparr>d_mac = Some ''aa:bb:cc:dd:ee:01'',
              d_hostname = ''us3-cab10-ru3-idrac'', d_manufacturer = ''Dell''\<rparr>
   \<and> map fst (fst (merge_leases file_mode dns_down
        [lease_of ''10.0.0.1'' (Some ''ff:ff:ff:ff:ff:01'') ''us3-cab10-ru7-ilo'',
         lease_of ''10.0.0.2'' (Some ''aa:bb:cc:dd:ee:02'') ''us3-cab10-ru9-idrac'']
        ([(''10.0.0.1'', \<lparr>d_mac = Some ''aa:bb:cc:dd:ee:01'',
              d_hostname = ''us3-cab10-ru3-idrac'', d_manufacturer = ''Dell''\<rparr>)], 0, [], fresh)))
     = [''10.0.0.1'', ''10.0.0.2'']"
proof -
  let ?d = "\<lparr>d_mac = Some ''aa:bb:cc:dd:ee:01'',
              d_hostname = ''us3-cab10-ru3-idrac'', d_manufacturer = ''Dell''\<rparr>"
  let ?ls = "[lease_of ''10.0.0.1'' (Some ''ff:ff:ff:ff:ff:01'') ''us3-cab10-ru7-ilo'',
         lease_of ''10.0.0.2'' (Some ''aa:bb:cc:dd:ee:02'') ''us3-cab10-ru9-idrac'']"
  have h: "map_of [(''10.0.0.1'', ?d)] ''10.0.0.1'' = Some ?d" by simp
  from first_write_wins[of "[(''10.0.0.1'', ?d)]" file_mode dns_down ?ls 0 "[]" fresh] h
  have a: "map_of (fst (merge_leases file_mode dns_down ?ls ([(''10.0.0.1'', ?d)], 0, [], fresh)))
       ''10.0.0.1'' = Some ?d" by blast
  have b: "map fst (fst (merge_leases file_mode dns_down ?ls ([(''10.0.0.1'', ?d)], 0, [], fresh)))
     = [''10.0.0.1'', ''10.0.0.2'']" by code_simp
  from h a b show ?thesis by blast
qed

text \<open>
  Claim C4. The target list of every inventory file a pass writes is in descending
  order of the key (rack unit, address), where the rack unit is the number
  \<^verbatim>\<open>_extract_rack_unit\<close> reads from the host name and \<open>-1\<close> without a host name. So of two
  targets with host names the one listed first has the higher rack unit, or the same
  rack unit and the higher address (in string order, descending as the whole key is); a
  target with a host name is never listed after one without; and the targets without
  host name come last, in that order of their addresses. The three targets of the spec's
  scenario sort as ru9, ru3, 10.0.0.3. On a list where the addresses run against the rack
  units, unit 10 comes before both targets of unit 9, these before unit 3, whatever the
  addresses: the rack unit decides first and is compared as a number (10 above 9), the
  address only between the two targets of unit 9.
\<close>

theorem persisted_targets_sorted:
  assumes "fst (update_cabinet_inventory p e st cab leases s) = Inr f"
    and "files (snd (update_cabinet_inventory p e st cab leases s)) f = Some (Inventory doc)"
  shows "sorted_wrt (\<lambda>a b. target_sort_key b \<le> target_sort_key a) (bmc_targets doc)
     \<and> (\<forall>i j. i < j \<longrightarrow> j < length (bmc_targets doc) \<longrightarrow>
           truthy (target_hostname (bmc_targets doc ! j)) \<longrightarrow>
           truthy (target_hostname (bmc_targets doc ! i))
           \<and> extract_rack_unit (or_empty (target_hostname (bmc_targets doc ! j)))
               \<le> extract_rack_unit (or_empty (target_hostname (bmc_targets doc ! i)))
           \<and> (extract_rack_unit (or_empty (target_hostname (bmc_targets doc ! j)))
                = extract_rack_unit (or_empty (target_hostname (bmc_targets doc ! i)))
               \<longrightarrow> ip (bmc_targets doc ! j) \<le> ip (bmc_targets doc ! i)))
     \<and> (\<forall>i j. i < j \<longrightarrow> j < length (bmc_targets doc) \<longrightarrow>
           \<not> truthy (target_hostname (bmc_targets doc ! i)) \<longrightarrow>
           \<not> truthy (target_hostname (bmc_targets doc ! j))
           \<and> ip (bmc_targets doc ! j) \<le> ip (bmc_targets doc ! i))
     \<and> sort_reverse target_sort_key
         [bare_target ''10.0.0.1'' (Some ''us3-cab10-ru3-idrac''),
          bare_target ''10.0.0.2'' (Some ''us3-cab10-ru9-idrac''),
          bare_target ''10.0.0.3'' (Some [])]
       = [bare_target ''10.0.0.2'' (Some ''us3-cab10-ru9-idrac''),
          bare_target ''10.0.0.1'' (Some ''us3-cab10-ru3-idrac''),
          bare_target ''10.0.0.3'' (Some [])]
     \<and> sort_reverse target_sort_key
         [bare_target ''10.0.0.2'' (Some ''us3-cab10-ru3-idrac''),
          bare_target ''10.0.0.1'' (Some ''us3-cab10-ru10-idrac''),
          bare_target ''10.0.0.3'' (Some ''us3-cab10-ru9-idrac''),
          bare_target ''10.0.0.4'' (Some ''us3-cab10-ru9-ilo''),
          bare_target ''10.0.0.8'' (Some []),
          bare_target ''10.0.0.9'' None]
       = [bare_target ''10.0.0.1'' (Some ''us3-cab10-ru10-idrac''),
          bare_target ''10.0.0.4'' (Some ''us3-cab10-ru9-ilo''),
          bare_target ''10.0.0.3'' (Some ''us3-cab10-ru9-idrac''),
          bare_target ''10.0.0.2'' (Some ''us3-cab10-ru3-idrac''),
          bare_target ''10.0.0.9'' None,
          bare_target ''10.0.0.8'' (Some [])]
     \<and> map target_sort_key
         [bare_target ''10.0.0.1'' (Some ''us3-cab10-ru10-idrac''),
          bare_target ''10.0.0.4'' (Some ''us3-cab10-ru9-ilo''),
          bare_target ''10.0.0.2'' (Some ''us3-cab10-ru3-idrac''),
          bare_target ''10.0.0.9'' None]
       = [(10, ''10.0.0.1''), (9, ''10.0.0.4''), (3, ''10.0.0.2''), (- 1, ''10.0.0.9'')]"
proof -
  let ?ts = "bmc_targets doc"
  have srt: "sorted_wrt (\<lambda>a b. target_sort_key b \<le> target_sort_key a) ?ts"
    unfolding written_doc[OF assms] by (rule sorted_wrt_sort_reverse)
  have key: "target_sort_key (?ts ! j) \<le> target_sort_key (?ts ! i)"
    if "i < j" "j < length ?ts" for i j
    using srt that by (simp add: sorted_wrt_iff_nth_less)
  have c2: "truthy (target_hostname (?ts ! i))
           \<and> extract_rack_unit (or_empty (target_hostname (?ts ! j)))
               \<le> extract_rack_unit (or_empty (target_hostname (?ts ! i)))
           \<and> (extract_rack_unit (or_empty (target_hostname (?ts ! j)))
                = extract_rack_unit (or_empty (target_hostname (?ts ! i)))
               \<longrightarrow> ip (?ts ! j) \<le> ip (?ts ! i))"
    if "i < j" "j < length ?ts" "truthy (target_hostname (?ts ! j))" for i j
    using key[OF that(1,2)] that(3)
    by (auto simp: target_sort_key_def less_eq_prod_def split: if_splits)
  have c3: "\<not> truthy (target_hostname (?ts ! j)) \<and> ip (?ts ! j) \<le> ip (?ts ! i)"
    if "i < j" "j < length ?ts" "\<not> truthy (target_hostname (?ts ! i))" for i j
    using key[OF that(1,2)] that(3)
    by (auto simp: target_sort_key_def less_eq_prod_def split: if_splits)
  have c4: "sort_reverse target_sort_key
         [bare_target ''10.0.0.1'' (Some ''us3-cab10-ru3-idrac''),
          bare_target ''10.0.0.2'' (Some ''us3-cab10-ru9-idrac''),
          bare_target ''10.0.0.3'' (Some [])]
       = [bare_target ''10.0.0.2'' (Some ''us3-cab10-ru9-idrac''),
          bare_target ''10.0.0.1'' (Some ''us3-cab10-ru3-idrac''),
          bare_target ''10.0.0.3'' (Some [])]"
    by code_simp
  have c5: "sort_reverse target_sort_key
         [bare_target ''10.0.0.2'' (Some ''us3-cab10-ru3-idrac''),
          bare_target ''10.0.0.1'' (Some ''us3-cab10-ru10-idrac''),
          bare_target ''10.0.0.3'' (Some ''us3-cab10-ru9-idrac''),
          bare_target ''10.0.0.4'' (Some ''us3-cab10-ru9-ilo''),
          bare_target ''10.0.0.8'' (Some []),
          bare_target ''10.0.0.9'' None]
       = [bare_target ''10.0.0.1'' (Some ''us3-cab10-ru10-idrac''),
          bare_target ''10.0.0.4'' (Some ''us3-cab10-ru9-ilo''),
          bare_target ''10.0.0.3'' (Some ''us3-cab10-ru9-idrac''),
          bare_target ''10.0.0.2'' (Some ''us3-cab10-ru3-idrac''),
          bare_target ''10.0.0.9'' None,
          bare_target ''10.0.0.8'' (Some [])]"
    by code_simp
  have c6: "map target_sort_key
         [bare_target ''10.0.0.1'' (Some ''us3-cab10-ru10-idrac''),
          bare_target ''10.0.0.4'' (Some ''us3-cab10-ru9-ilo''),
          bare_target ''10.0.0.2'' (Some ''us3-cab10-ru3-idrac''),
          bare_target ''10.0.0.9'' None]
       = [(10, ''10.0.0.1''), (9, ''10.0.0.4''), (3, ''10.0.0.2''), (- 1, ''10.0.0.9'')]"
    by code_simp
  from c2 have c2': "\<forall>i j. i < j \<longrightarrow> j < length ?ts \<longrightarrow>
           truthy (target_hostname (?ts ! j)) \<longrightarrow>
           truthy (target_hostname (?ts ! i))
           \<and> extract_rack_unit (or_empty (target_hostname (?ts ! j)))
               \<le> extract_rack_unit (or_empty (target_hostname (?ts ! i)))
           \<and> (extract_rack_unit (or_empty (target_hostname (?ts ! j)))
                = extract_rack_unit (or_empty (target_hostname (?ts ! i)))
               \<longrightarrow> ip (?ts ! j) \<le> ip (?ts ! i))" by blast
  from c3 have c3': "\<forall>i j. i < j \<longrightarrow> j < length ?ts \<longrightarrow>
           \<not> truthy (target_hostname (?ts ! i)) \<longrightarrow>
           \<not> truthy (target_hostname (?ts ! j)) \<and> ip (?ts ! j) \<le> ip (?ts ! i)" by blast
  show ?thesis by (intro conjI srt c2' c3' c4 c5 c6)
qed

text \<open>
  C4 on a pass that adds four leases, in units 3, 10, 9 and 9 with addresses in another
  order, to a file holding a target without host name: the file lists them by unit 10,
  9, 9, 3 and the target without host name last.
\<close>

theorem persisted_targets_sorted_witness:
  "fst (update_cabinet_inventory file_mode dns_down ''us3'' ''cab10'' shelf_leases
          (with_file [(bare_target ''10.0.0.9'' None)\<lparr>mac := Some ''aa:bb:cc:dd:ee:09''\<rparr>]))
     = Inr ''us3-cab10-discovery.yml''
   \<and> files (snd (update_cabinet_inventory file_mode dns_down ''us3'' ''cab10'' shelf_leases
          (with_file [(bare_target ''10.0.0.9'' None)\<lparr>mac := Some ''aa:bb:cc:dd:ee:09''\<rparr>])))
        ''us3-cab10-discovery.yml''
     = Some (Inventory (cabinet_doc shelf_targets))
   \<and> sorted_wrt (\<lambda>a b. target_sort_key b \<le> target_sort_key a) shelf_targets
   \<and> map target_sort_key shelf_targets
       = [(10, ''10.0.0.1''), (9, ''10.0.0.4''), (9, ''10.0.0.3''), (3, ''10.0.0.2''),
          (- 1, ''10.0.0.9'')]
   \<and> extract_rack_unit ''us3-cab10-ru3-idrac'' \<le> extract_rack_unit ''us3-cab10-ru10-idrac''
   \<and> extract_rack_unit ''us3-cab10-ru10-idrac'' = 10
   \<and> extract_rack_unit ''us3-cab10-ru3-idrac'' = 3"
proof -
  let ?run = "update_cabinet_inventory file_mode dns_down ''us3'' ''cab10'' shelf_leases
          (with_file [(bare_target ''10.0.0.9'' None)\<lparr>mac := Some ''aa:bb:cc:dd:ee:09''\<rparr>])"
  have h1: "fst ?run = Inr ''us3-cab10-discovery.yml''" by code_simp
  have h2: "files (snd ?run) ''us3-cab10-discovery.yml'' = Some (Inventory (cabinet_doc shelf_targets))"
    by code_simp
  have ts: "bmc_targets (cabinet_doc shelf_targets) = shelf_targets"
    by (simp add: cabinet_doc_def)
  note inst = persisted_targets_sorted[OF h1 h2, unfolded ts]
  note srt = inst[THEN conjunct1]
  have i03: "(0::nat) < 3" "3 < length shelf_targets"
    "truthy (target_hostname (shelf_targets ! 3))"
    by (simp_all add: shelf_targets_def)
  from inst[THEN conjunct2, THEN conjunct1, rule_format, OF i03]
  have "extract_rack_unit (or_empty (target_hostname (shelf_targets ! 3)))
               \<le> extract_rack_unit (or_empty (target_hostname (shelf_targets ! 0)))"
    by (rule conjunct2[THEN conjunct1])
  then have le: "extract_rack_unit ''us3-cab10-ru3-idrac'' \<le> extract_rack_unit ''us3-cab10-ru10-idrac''"
    by (simp add: shelf_targets_def)
  have k: "map target_sort_key shelf_targets
       = [(10, ''10.0.0.1''), (9, ''10.0.0.4''), (9, ''10.0.0.3''), (3, ''10.0.0.2''),
          (- 1, ''10.0.0.9'')]" by code_simp
  have v10: "extract_rack_unit ''us3-cab10-ru10-idrac'' = 10" by code_simp
  have v3: "extract_rack_unit ''us3-cab10-ru3-idrac'' = 3" by code_simp
  show ?thesis by (intro conjI h1 h2 srt k le v10 v3)
qed

text \<open>
  Claim C1 as stated fails for the manufacturer. Two passes with the same batch start from
  files that differ only in the manufacturer recorded for 10.0.0.5; the files they write
  have the same host name for the target and different manufacturers, and the one
  started from \<^verbatim>\<open>HP\<close> does not hold what \<^verbatim>\<open>_detect_manufacturer\<close> gives for the host name.
\<close>

theorem manufacturer_kept_counterexample:
  "files (snd (update_cabinet_inventory file_mode dns_down ''us3'' ''cab10'' [lease_ru5]
                 (with_file [persisted ''HP''])))
       ''us3-cab10-discovery.yml''
     = Some (Inventory (cabinet_doc [rewritten ''HP'']))
   \<and> files (snd (update_cabinet_inventory file_mode dns_down ''us3'' ''cab10'' [lease_ru5]
                 (with_file [persisted ''Dell''])))
       ''us3-cab10-discovery.yml''
     = Some (Inventory (cabinet_doc [rewritten ''Dell'']))
   \<and> target_hostname (rewritten ''HP'') = target_hostname (rewritten ''Dell'')
   \<and> manufacturer (rewritten ''HP'') \<noteq> manufacturer (rewritten ''Dell'')
   \<and> detect_manufacturer ''us3-cab10-ru5-idrac'' = ''Dell''"
proof -
  have a: "files (snd (update_cabinet_inventory file_mode dns_down ''us3'' ''cab10'' [lease_ru5]
                 (with_file [persisted ''HP''])))
       ''us3-cab10-discovery.yml''
     = Some (Inventory (cabinet_doc [rewritten ''HP'']))" by code_simp
  have b: "files (snd (update_cabinet_inventory file_mode dns_down ''us3'' ''cab10'' [lease_ru5]
                 (with_file [persisted ''Dell''])))
       ''us3-cab10-discovery.yml''
     = Some (Inventory (cabinet_doc [rewritten ''Dell'']))" by code_simp
  have c: "target_hostname (rewritten ''HP'') = target_hostname (rewritten ''Dell'')"
    by (simp add: rewritten_def)
  have d: "manufacturer (rewritten ''HP'') \<noteq> manufacturer (rewritten ''Dell'')"
    by (simp add: rewritten_def)
  have e: "detect_manufacturer ''us3-cab10-ru5-idrac'' = ''Dell''" by code_simp
  from a b c d e show ?thesis by blast
qed

text \<open>
  Claim C1, amended. In every inventory file a pass writes, the rack-unit display string
  of a target is a function of its host name alone (absent without a host name or
  without an \<^verbatim>\<open>ru\<close> token, else \<^verbatim>\<open>_format_rack_unit\<close> of the host name). The manufacturer
  is computed from the host name only for a target added in this pass; for an address
  that the loaded inventory already held it is the value that was loaded.
\<close>

theorem derived_fields_at_write:
  assumes "fst (update_cabinet_inventory p e st cab leases s) = Inr f"
    and "files (snd (update_cabinet_inventory p e st cab leases s)) f = Some (Inventory doc)"
    and "t \<in> set (bmc_targets doc)"
  shows "rack_unit t =
           (if truthy (target_hostname t) \<and> format_rack_unit (or_empty (target_hostname t)) \<noteq> []
            then Some (format_rack_unit (or_empty (target_hostname t))) else None)
       \<and> manufacturer t =
           (case map_of (load_existing p e (files s (inventory_file_name st cab))) (ip t) of
              Some d \<Rightarrow> if d_manufacturer d \<noteq> [] then Some (d_manufacturer d) else None
            | None \<Rightarrow>
                if truthy (target_hostname t)
                then Some (detect_manufacturer (or_empty (target_hostname t))) else None)"
proof -
  let ?ex = "load_existing p e (files s (inventory_file_name st cab))"
  obtain m n hs s1 where mg: "merge_leases p e leases (?ex, 0, [], s) = (m, n, hs, s1)"
    by (metis prod_cases4)
  from written_doc[OF assms(1,2)] mg
  have "bmc_targets doc = sort_reverse target_sort_key (map build_target m)" by simp
  with assms(3) obtain kd where kd: "kd \<in> set m" "t = build_target kd"
    by (auto simp: set_sort_reverse)
  from merge_leases_extends[OF mg] obtain new where new: "m = ?ex @ new"
    "\<forall>kd \<in> set new. map_of ?ex (fst kd) = None
           \<and> (\<exists>l \<in> set leases. ip_address l = fst kd \<and> snd kd = details_of_lease l)"
    by blast
  have ru: "rack_unit t =
           (if truthy (target_hostname t) \<and> format_rack_unit (or_empty (target_hostname t)) \<noteq> []
            then Some (format_rack_unit (or_empty (target_hostname t))) else None)"
    unfolding kd(2) by (simp add: build_target_def)
  from kd(1) new(1) consider "kd \<in> set ?ex" | "kd \<in> set new" by auto
  then have "manufacturer t =
           (case map_of ?ex (ip t) of
              Some d \<Rightarrow> if d_manufacturer d \<noteq> [] then Some (d_manufacturer d) else None
            | None \<Rightarrow>
                if truthy (target_hostname t)
                then Some (detect_manufacturer (or_empty (target_hostname t))) else None)"
  proof cases
    case 1
    have "map_of ?ex (fst kd) = Some (snd kd)"
      using 1 distinct_load_existing[of p e "files s (inventory_file_name st cab)"]
      by (metis map_of_is_SomeI prod.collapse)
    then show ?thesis unfolding kd(2) by (simp add: build_target_def)
  next
    case 2
    with new(2) obtain l where l: "map_of ?ex (fst kd) = None" "snd kd = details_of_lease l"
      by blast
    then show ?thesis unfolding kd(2)
      by (cases "hostname l")
         (simp_all add: build_target_def details_of_lease_def detect_manufacturer_nonempty)
  qed
  with ru show ?thesis by simp
qed

text \<open>
  The amended C1 on the first pass of the counterexample: the stale \<^verbatim>\<open>RU 05\<close> is replaced
  by \<^verbatim>\<open>RU 5\<close>, the manufacturer stays \<^verbatim>\<open>HP\<close>.
\<close>

theorem derived_fields_at_write_witness:
  "fst (update_cabinet_inventory file_mode dns_down ''us3'' ''cab10'' [lease_ru5]
          (with_file [persisted ''HP''])) = Inr ''us3-cab10-discovery.yml''
   \<and> files (snd (update_cabinet_inventory file_mode dns_down ''us3'' ''cab10'' [lease_ru5]
                 (with_file [persisted ''HP''])))
       ''us3-cab10-discovery.yml''
     = Some (Inventory (cabinet_doc [rewritten ''HP'']))
   \<and> rewritten ''HP'' \<in> set (bmc_targets (cabinet_doc [rewritten ''HP'']))
   \<and> rack_unit (rewritten ''HP'') = Some (format_rack_unit ''us3-cab10-ru5-idrac'')
   \<and> format_rack_unit ''us3-cab10-ru5-idrac'' = ''RU 5''
   \<and> map_of (load_existing file_mode dns_down
               (files (with_file [persisted ''HP'']) (inventory_file_name ''us3'' ''cab10'')))
        ''10.0.0.5''
      = Some \<lparr>d_mac = Some ''aa:bb:cc:dd:ee:05'', d_hostname = ''us3-cab10-ru5-idrac'',
              d_manufacturer = ''HP''\<rparr>
   \<and> manufacturer (rewritten ''HP'') = Some ''HP''"
proof -
  let ?s = "with_file [persisted ''HP'']"
  let ?run = "update_cabinet_inventory file_mode dns_down ''us3'' ''cab10'' [lease_ru5] ?s"
  have h1: "fst ?run = Inr ''us3-cab10-discovery.yml''" by code_simp
  have h2: "files (snd ?run) ''us3-cab10-discovery.yml''
              = Some (Inventory (cabinet_doc [rewritten ''HP'']))" by code_simp
  have h3: "rewritten ''HP'' \<in> set (bmc_targets (cabinet_doc [rewritten ''HP'']))"
    by (simp add: cabinet_doc_def)
  have ld: "map_of (load_existing file_mode dns_down
               (files ?s (inventory_file_name ''us3'' ''cab10''))) ''10.0.0.5''
      = Some \<lparr>d_mac = Some ''aa:bb:cc:dd:ee:05'', d_hostname = ''us3-cab10-ru5-idrac'',
              d_manufacturer = ''HP''\<rparr>" by code_simp
  have fr: "format_rack_unit ''us3-cab10-ru5-idrac'' = ''RU 5''" by code_simp
  have sel: "target_hostname (rewritten ''HP'') = Some ''us3-cab10-ru5-idrac''"
    "ip (rewritten ''HP'') = ''10.0.0.5''"
    by (simp_all add: rewritten_def)
  from derived_fields_at_write[OF h1 h2 h3]
  have "rack_unit (rewritten ''HP'') = Some (format_rack_unit ''us3-cab10-ru5-idrac'')
      \<and> manufacturer (rewritten ''HP'') = Some ''HP''"
    unfolding sel ld by (simp add: fr)
  with h1 h2 h3 ld fr show ?thesis by blast
qed

text \<open>
  Claim C7. A lease whose host name does not match the site-cabinet convention is in no
  group of the batch, so no cabinet is reconciled with it and the merge loop, the only
  caller of \<^verbatim>\<open>create_static_reservation\<close> in a pass, never meets it; and a batch with
  the lease gives the same result and the same state (files, reservation store, DNS
  records, log) as the batch without it. No branch for it raises.
\<close>

theorem unmatched_lease_is_filtered:
  assumes "extract_site_and_cabinet lease = None"
  shows "(\<forall>g \<in> set (group_leases leases). lease \<notin> set (snd g))
       \<and> generate_batch_inventory p e (xs @ lease # ys) s = generate_batch_inventory p e (xs @ ys) s"
proof -
  have 1: "\<forall>g \<in> set (group_leases leases). lease \<notin> set (snd g)"
    using group_leases_sound assms by fastforce
  have 2: "generate_batch_inventory p e (xs @ lease # ys) s = generate_batch_inventory p e (xs @ ys) s"
    using group_step_skip[OF assms, of xs ys]
    by (auto simp: generate_batch_inventory_def group_leases_def)
  from 1 2 show ?thesis by simp
qed

text \<open>C7 on a batch of a matching lease and one with the host name \<^verbatim>\<open>rack1-nohyphen\<close>.\<close>

theorem unmatched_lease_is_filtered_witness:
  "extract_site_and_cabinet (lease_of ''10.0.0.9'' (Some ''aa:bb:cc:dd:ee:09'') ''rack1-nohyphen'') = None
   \<and> group_leases [lease_ru5, lease_of ''10.0.0.9'' (Some ''aa:bb:cc:dd:ee:09'') ''rack1-nohyphen'']
       = [((''us3'', ''cab10''), [lease_ru5])]
   \<and> generate_batch_inventory dns_mode dns_down
        ([lease_ru5] @ lease_of ''10.0.0.9'' (Some ''aa:bb:cc:dd:ee:09'') ''rack1-nohyphen'' # []) fresh
       = generate_batch_inventory dns_mode dns_down ([lease_ru5] @ []) fresh
   \<and> files (snd (generate_batch_inventory dns_mode dns_down
        ([lease_ru5] @ lease_of ''10.0.0.9'' (Some ''aa:bb:cc:dd:ee:09'') ''rack1-nohyphen'' # []) fresh))
        ''us3-cab10-discovery.yml''
       = Some (Inventory (cabinet_doc [rewritten ''Dell'']))"
proof -
  let ?l = "lease_of ''10.0.0.9'' (Some ''aa:bb:cc:dd:ee:09'') ''rack1-nohyphen''"
  have h: "extract_site_and_cabinet ?l = None" by code_simp
  have g: "group_leases [lease_ru5, ?l] = [((''us3'', ''cab10''), [lease_ru5])]" by code_simp
  have f: "files (snd (generate_batch_inventory dns_mode dns_down ([lease_ru5] @ ?l # []) fresh))
        ''us3-cab10-discovery.yml'' = Some (Inventory (cabinet_doc [rewritten ''Dell'']))"
    by code_simp
  from unmatched_lease_is_filtered[OF h, of "[]" dns_mode dns_down "[lease_ru5]" "[]" fresh] h g f
  show ?thesis by blast
qed

text \<open>
  Claim C8. When two targets of the list share a non-empty hardware address and have
  different addresses, the conflict report holds exactly one hardware-address warning
  for it, and its address list holds both addresses. When the list is the one a pass
  built and the file can be written, the pass returns the file name, the file holds
  exactly those targets, and the warnings are in the log: the conflict does not stop the
  write.
\<close>

theorem mac_conflict_reported_once:
  assumes "t1 \<in> set ts" and "t2 \<in> set ts"
    and "mac t1 = Some m" and "mac t2 = Some m" and "m \<noteq> []"
    and "ip t1 \<noteq> ip t2"
  shows "(\<exists>ips. filter (\<lambda>x. case x of Mac_conflict tag m' l \<Rightarrow> m' = m | _ \<Rightarrow> False)
                 (validate_bmc_conflicts ts st cab)
              = [Mac_conflict (conflict_tag st cab) m ips]
            \<and> ip t1 \<in> set ips \<and> ip t2 \<in> set ips)
       \<and> (write_ok e (inventory_file_name st cab) \<longrightarrow>
          ts = map build_target (fst (merge_leases p e leases
                 (load_existing p e (files s (inventory_file_name st cab)), 0, [], s))) \<longrightarrow>
          fst (update_cabinet_inventory p e st cab leases s) = Inr (inventory_file_name st cab)
          \<and> (\<exists>doc. files (snd (update_cabinet_inventory p e st cab leases s))
                      (inventory_file_name st cab) = Some (Inventory doc)
                  \<and> set (bmc_targets doc) = set ts)
          \<and> set (validate_bmc_conflicts ts st cab)
              \<subseteq> set (log (snd (update_cabinet_inventory p e st cab leases s))))"
proof -
  let ?sel = "\<lambda>x. case x of Mac_conflict tag m' l \<Rightarrow> m' = m | _ \<Rightarrow> False"
  let ?own = "filter (\<lambda>t. truthy (mac t) \<and> or_empty (mac t) = m) ts"
  let ?ips = "map ip ?own"
  let ?tag = "conflict_tag st cab"
  from assms have own: "t1 \<in> set ?own" "t2 \<in> set ?own" by simp_all
  then have ne: "?own \<noteq> []" by (metis empty_iff empty_set)
  from own have ips: "ip t1 \<in> set ?ips" "ip t2 \<in> set ?ips" by auto
  from two_elements_length[OF ips assms(6)] have len: "1 < length ?ips" .
  from ne have "map_of (mac_to_ips ts) m = Some ?ips" by (simp add: mac_to_ips_lookup)
  with mac_to_ips_keys have one: "filter (\<lambda>kv. fst kv = m) (mac_to_ips ts) = [(m, ?ips)]"
    by (rule filter_key_distinct)
  have "filter ?sel (mac_warnings ?tag ts) =
        map (\<lambda>kv. Mac_conflict ?tag (fst kv) (sort (snd kv)))
          (filter (\<lambda>kv. length (snd kv) > 1) (filter (\<lambda>kv. fst kv = m) (mac_to_ips ts)))"
    by (simp add: mac_warnings_def filter_map comp_def conj_commute)
  with one len have a: "filter ?sel (mac_warnings ?tag ts) = [Mac_conflict ?tag m (sort ?ips)]"
    by simp
  have b: "filter ?sel (hostname_warnings ?tag ts) = []"
    by (simp add: hostname_warnings_def filter_map comp_def)
  have c: "filter ?sel (rack_unit_warnings ?tag ts) = []"
    by (simp add: rack_unit_warnings_def filter_map comp_def)
  from a b c
  have "filter ?sel (validate_bmc_conflicts ts st cab) = [Mac_conflict ?tag m (sort ?ips)]"
    by (simp add: validate_bmc_conflicts_def Let_def)
  moreover from ips have "ip t1 \<in> set (sort ?ips)" "ip t2 \<in> set (sort ?ips)" by simp_all
  ultimately have first: "\<exists>ips. filter ?sel (validate_bmc_conflicts ts st cab)
              = [Mac_conflict ?tag m ips] \<and> ip t1 \<in> set ips \<and> ip t2 \<in> set ips" by blast
  have second: "fst (update_cabinet_inventory p e st cab leases s) = Inr (inventory_file_name st cab)
          \<and> (\<exists>doc. files (snd (update_cabinet_inventory p e st cab leases s))
                      (inventory_file_name st cab) = Some (Inventory doc)
                  \<and> set (bmc_targets doc) = set ts)
          \<and> set (validate_bmc_conflicts ts st cab)
              \<subseteq> set (log (snd (update_cabinet_inventory p e st cab leases s)))"
    if w: "write_ok e (inventory_file_name st cab)"
      and ts: "ts = map build_target (fst (merge_leases p e leases
                 (load_existing p e (files s (inventory_file_name st cab)), 0, [], s)))"
  proof -
    obtain m2 n2 hs2 s2 where mg: "merge_leases p e leases
        (load_existing p e (files s (inventory_file_name st cab)), 0, [], s) = (m2, n2, hs2, s2)"
      by (metis prod_cases4)
    from ts mg have ts2: "map build_target m2 = ts" by simp
    show ?thesis
      unfolding update_cabinet_inventory_result[OF mg] ts2
      using w by (auto simp: set_sort_reverse)
  qed
  from first second show ?thesis by blast
qed

text \<open>
  C8 on a pass over two new leases, 10.0.0.1 and 10.0.0.2, with one hardware address:
  one warning that cites both addresses, and the file written with both targets.
\<close>

theorem mac_conflict_reported_once_witness:
  "twin_target ''10.0.0.1'' ''us3-cab10-ru3-idrac'' ''RU 3''
     \<in> set [twin_target ''10.0.0.1'' ''us3-cab10-ru3-idrac'' ''RU 3'',
            twin_target ''10.0.0.2'' ''us3-cab10-ru9-idrac'' ''RU 9'']
   \<and> twin_target ''10.0.0.2'' ''us3-cab10-ru9-idrac'' ''RU 9''
     \<in> set [twin_target ''10.0.0.1'' ''us3-cab10-ru3-idrac'' ''RU 3'',
            twin_target ''10.0.0.2'' ''us3-cab10-ru9-idrac'' ''RU 9'']
   \<and> mac (twin_target ''10.0.0.1'' ''us3-cab10-ru3-idrac'' ''RU 3'') = Some ''aa:bb:cc:dd:ee:01''
   \<and> mac (twin_target ''10.0.0.2'' ''us3-cab10-ru9-idrac'' ''RU 9'') = Some ''aa:bb:cc:dd:ee:01''
   \<and> ip (twin_target ''10.0.0.1'' ''us3-cab10-ru3-idrac'' ''RU 3'')
       \<noteq> ip (twin_target ''10.0.0.2'' ''us3-cab10-ru9-idrac'' ''RU 9'')
   \<and> [twin_target ''10.0.0.1'' ''us3-cab10-ru3-idrac'' ''RU 3'',
       twin_target ''10.0.0.2'' ''us3-cab10-ru9-idrac'' ''RU 9'']
      = map build_target (fst (merge_leases file_mode dns_down twin_leases
          (load_existing file_mode dns_down (files fresh (inventory_file_name ''us3'' ''cab10'')),
           0, [], fresh)))
   \<and> write_ok dns_down (inventory_file_name ''us3'' ''cab10'')
   \<and> filter (\<lambda>x. case x of Mac_conflict tag m' l \<Rightarrow> m' = ''aa:bb:cc:dd:ee:01'' | _ \<Rightarrow> False)
        (validate_bmc_conflicts
           [twin_target ''10.0.0.1'' ''us3-cab10-ru3-idrac'' ''RU 3'',
            twin_target ''10.0.0.2'' ''us3-cab10-ru9-idrac'' ''RU 9''] ''us3'' ''cab10'')
      = [Mac_conflict ''US3-CAB10'' ''aa:bb:cc:dd:ee:01'' [''10.0.0.1'', ''10.0.0.2'']]
   \<and> fst (update_cabinet_inventory file_mode dns_down ''us3'' ''cab10'' twin_leases fresh)
      = Inr (inventory_file_name ''us3'' ''cab10'')
   \<and> set (validate_bmc_conflicts
           [twin_target ''10.0.0.1'' ''us3-cab10-ru3-idrac'' ''RU 3'',
            twin_target ''10.0.0.2'' ''us3-cab10-ru9-idrac'' ''RU 9''] ''us3'' ''cab10'')
      \<subseteq> set (log (snd (update_cabinet_inventory file_mode dns_down ''us3'' ''cab10''
                          twin_leases fresh)))
   \<and> files (snd (update_cabinet_inventory file_mode dns_down ''us3'' ''cab10'' twin_leases fresh))
        ''us3-cab10-discovery.yml''
      = Some (Inventory (cabinet_doc
          [twin_target ''10.0.0.2'' ''us3-cab10-ru9-idrac'' ''RU 9'',
           twin_target ''10.0.0.1'' ''us3-cab10-ru3-idrac'' ''RU 3'']))"
proof -
  let ?t1 = "twin_target ''10.0.0.1'' ''us3-cab10-ru3-idrac'' ''RU 3''"
  let ?t2 = "twin_target ''10.0.0.2'' ''us3-cab10-ru9-idrac'' ''RU 9''"
  let ?m = "''aa:bb:cc:dd:ee:01''"
  have h1: "?t1 \<in> set [?t1, ?t2]" and h2: "?t2 \<in> set [?t1, ?t2]" by simp_all
  have h3: "mac ?t1 = Some ?m" and h4: "mac ?t2 = Some ?m"
    by (simp_all add: twin_target_def)
  have h5: "?m \<noteq> []" by simp
  have h6: "ip ?t1 \<noteq> ip ?t2" by (simp add: twin_target_def)
  have h7: "write_ok dns_down (inventory_file_name ''us3'' ''cab10'')"
    by (simp add: dns_down_def)
  have h8: "[?t1, ?t2] = map build_target (fst (merge_leases file_mode dns_down twin_leases
          (load_existing file_mode dns_down (files fresh (inventory_file_name ''us3'' ''cab10'')),
           0, [], fresh)))" by code_simp
  have ev: "filter (\<lambda>x. case x of Mac_conflict tag m' l \<Rightarrow> m' = ?m | _ \<Rightarrow> False)
        (validate_bmc_conflicts [?t1, ?t2] ''us3'' ''cab10'')
      = [Mac_conflict ''US3-CAB10'' ?m [''10.0.0.1'', ''10.0.0.2'']]" by code_simp
  have fl: "files (snd (update_cabinet_inventory file_mode dns_down ''us3'' ''cab10'' twin_leases fresh))
        ''us3-cab10-discovery.yml''
      = Some (Inventory (cabinet_doc [?t2, ?t1]))" by code_simp
  note imp = mac_conflict_reported_once[OF h1 h2 h3 h4 h5 h6,
      where e = dns_down and st = "''us3''" and cab = "''cab10''" and p = file_mode
        and leases = twin_leases and s = fresh, THEN conjunct2, rule_format, OF h7 h8]
  note q1 = imp[THEN conjunct1]
  note q3 = imp[THEN conjunct2, THEN conjunct2]
  show ?thesis
    by (intro conjI h1 h2 h3 h4 h6 h7 h8 ev q1 q3 fl)
qed

text \<open>
  Claim C3 fails on the code. A batch of one lease with an empty hardware address is
  reconciled into an empty output directory, without database: the first pass writes the
  target with host name, rack unit and manufacturer, but without a \<^verbatim>\<open>mac\<close> key. The
  second pass, with the same batch, takes the file it wrote for the older shape (its
  first target has no \<^verbatim>\<open>mac\<close> key), keeps the address only and writes the target
  without any detail: the two inventories differ.
\<close>

theorem second_pass_drops_details:
  "files (snd (generate_batch_inventory file_mode dns_down [lease_nomac] fresh))
       ''us3-cab10-discovery.yml''
     = Some (Inventory (cabinet_doc
         [\<lparr>ip = ''10.0.0.5'', mac = None, target_hostname = Some ''us3-cab10-ru5-idrac'',
           rack_unit = Some ''RU 5'', manufacturer = Some ''Dell''\<rparr>]))
   \<and> files (snd (generate_batch_inventory file_mode dns_down [lease_nomac]
                  (snd (generate_batch_inventory file_mode dns_down [lease_nomac] fresh))))
       ''us3-cab10-discovery.yml''
     = Some (Inventory (cabinet_doc [bare_target ''10.0.0.5'' None]))"
proof -
  have a: "files (snd (generate_batch_inventory file_mode dns_down [lease_nomac] fresh))
       ''us3-cab10-discovery.yml''
     = Some (Inventory (cabinet_doc
         [\<lparr>ip = ''10.0.0.5'', mac = None, target_hostname = Some ''us3-cab10-ru5-idrac'',
           rack_unit = Some ''RU 5'', manufacturer = Some ''Dell''\<rparr>]))" by code_simp
  have b: "files (snd (generate_batch_inventory file_mode dns_down [lease_nomac]
                  (snd (generate_batch_inventory file_mode dns_down [lease_nomac] fresh))))
       ''us3-cab10-discovery.yml''
     = Some (Inventory (cabinet_doc [bare_target ''10.0.0.5'' None]))" by code_simp
  show ?thesis by (intro conjI a b)
qed

text \<open>
  Claim C9 fails on the code when the modification time is 0.0 (the epoch). The first
  call records that time; at the second call the log has the same time, but the guard
  takes the recorded 0.0 for no time at all, the log is read again, and the call returns
  the lease once more.
\<close>

theorem epoch_mtime_is_read_again:
  "last_mtime (snd (get_new_leases new_source (Some (log_at 0)))) = Some (st_mtime (log_at 0))
   \<and> fst (get_new_leases (snd (get_new_leases new_source (Some (log_at 0)))) (Some (log_at 0)))
       = [lease_ru5]"
proof -
  have s1: "snd (get_new_leases new_source (Some (log_at 0))) = new_source\<lparr>last_mtime := Some 0\<rparr>"
    by (simp add: get_new_leases_def new_source_def log_at_def mtime_truthy_def)
  have a: "last_mtime (snd (get_new_leases new_source (Some (log_at 0)))) = Some (st_mtime (log_at 0))"
    unfolding s1 by (simp add: log_at_def)
  have b: "fst (get_new_leases (snd (get_new_leases new_source (Some (log_at 0)))) (Some (log_at 0)))
       = [lease_ru5]"
    unfolding s1
    by (simp add: get_new_leases_def mtime_truthy_def log_at_def rows_of_log)
  show ?thesis by (intro conjI a b)
qed

end
